theory Spec2Isabelle
  imports Main
begin

section \<open>Time (moment)\<close>

text \<open>
  A \<open>Moment\<close> (and a JavaScript \<open>Date\<close>) is a number of milliseconds since the epoch.
  \<open>unix\<close> is \<open>Moment.unix()\<close>: whole seconds, rounded down. \<open>add_minutes\<close> is
  \<open>Moment.add(n, 'minutes')\<close>: exact milliseconds.
  Every operation below takes the reading \<open>now\<close> of the clock as an argument; the clock
  reads of one operation fall on the same instant.
\<close>

type_synonym Moment = int

definition unix :: "Moment \<Rightarrow> int" where
  "unix m = m div 1000"

definition add_minutes :: "Moment \<Rightarrow> int \<Rightarrow> Moment" where
  "add_minutes m n = m + n * 60000"

text \<open>
  \<open>Moment.add(n, 'days')\<close> keeps the wall-clock time of the time zone of the process: the
  result is \<open>n\<close> times 24 hours later, shifted by the change of the zone's offset between
  the two days (an hour across a daylight-saving change, nothing in UTC). The zone is a
  parameter: \<open>tz m n\<close> is that shift, in milliseconds, for \<open>n\<close> days from \<open>m\<close>.
\<close>

type_synonym zone = "Moment \<Rightarrow> int \<Rightarrow> int"

definition add_days :: "zone \<Rightarrow> Moment \<Rightarrow> int \<Rightarrow> Moment" where
  "add_days tz m n = m + n * 86400000 + tz m n"

definition utc :: zone where
  "utc m n = 0"

section \<open>Data model (types/knex and the migrations)\<close>

datatype Role = USER | ADMIN

datatype TokenType = ACCESS | REFRESH | RESET_PASSWORD | VERIFY_EMAIL

text \<open>The claim set that \<open>generateToken\<close> signs: \<open>{sub, iat, exp, type}\<close>.\<close>

record payload =
  sub :: nat
  iat :: int
  exp :: int
  type_p :: TokenType

text \<open>
  Modelled from the spec: the jsonwebtoken library (\<open>jwt.sign\<close>, \<open>jwt.verify\<close>) is not
  among the sources. A token string is represented by what it decodes to: \<open>Signed p k\<close> is the
  serialisation of the claim set \<open>p\<close> with its signature under the key \<open>k\<close>, and
  \<open>Unparsable s\<close> is a string \<open>s\<close> that is no well-formed token. Signing is
  deterministic (spec 4.1): equal claim sets under equal keys give equal token strings.
\<close>

datatype jwt = Signed payload string | Unparsable string

record User =
  id_u :: nat
  email :: string
  name :: "string option"
  password :: string
  role :: Role
  is_email_verified :: bool
  created_at_u :: Moment
  updated_at :: Moment

record Token =
  id_t :: nat
  token :: jwt
  type_t :: TokenType
  expires :: Moment
  blacklisted :: bool
  created_at :: Moment
  user_id :: nat

text \<open>\<open>Omit<User, 'password'>\<close>: what \<open>exclude(user, ['password'])\<close> returns.\<close>

record UserSansPassword =
  id_o :: nat
  email_o :: string
  name_o :: "string option"
  role_o :: Role
  is_email_verified_o :: bool
  created_at_o :: Moment
  updated_at_o :: Moment

text \<open>
  \<open>Partial<User>\<close>, the update body of \<open>updateUserById\<close>: a field that is \<open>None\<close> is
  absent from the object. (The key and the two timestamps are never sent by a caller.)
\<close>

record UserPatch =
  email_b :: "string option"
  name_b :: "string option option"
  password_b :: "string option"
  role_b :: "Role option"
  is_email_verified_b :: "bool option"

text \<open>\<open>AuthTokensResponse\<close>: an access and a refresh token, each with its expiry date.\<close>

record TokenResponse =
  token_r :: jwt
  expires_r :: Moment

record AuthTokensResponse =
  access :: TokenResponse
  refresh :: TokenResponse

text \<open>
  \<open>config.jwt\<close> (config/config is not among the sources): the signing key and the four
  lifetimes, taken as a parameter of every function that reads them.
\<close>

record jwt_config =
  secret :: string
  accessExpirationMinutes :: int
  refreshExpirationDays :: int
  resetPasswordExpirationMinutes :: int
  verifyEmailExpirationMinutes :: int

section \<open>Errors and outcomes\<close>

text \<open>
  Every value the code throws: \<open>ApiError status message\<close>, a plain \<open>Error message\<close>,
  the two errors of \<open>jwt.verify\<close>, and the two rejections of a knex query:
  \<open>StoreError\<close> when the connection to the database has failed, and
  \<open>ForeignKeyViolation\<close> when the database refuses a row of \<open>tokens\<close> whose
  \<open>user_id\<close> is the id of no row of \<open>users\<close>.
\<close>

datatype error =
    ApiError nat string
  | Error string
  | JsonWebTokenError string
  | TokenExpiredError
  | StoreError
  | ForeignKeyViolation

definition UNAUTHORIZED :: nat where
  "UNAUTHORIZED = 401"

definition NOT_FOUND :: nat where
  "NOT_FOUND = 404"

definition BAD_REQUEST :: nat where
  "BAD_REQUEST = 400"

text \<open>
  The database as the services see it: the two tables in insertion order, the next value of
  the \<open>tokens.id\<close> sequence, and \<open>outage\<close>: \<open>None\<close> when the connection never fails,
  \<open>Some n\<close> when it fails after \<open>n\<close> more queries. The migration of \<open>tokens\<close>
  declares \<open>user_id\<close> a foreign key of \<open>users.id\<close>: \<open>fk_ok\<close> says that every ledger
  row has its owner in \<open>users\<close>, and the insert below refuses a row that has not. (The
  key's \<open>ON DELETE CASCADE\<close> acts when a user is deleted, which no function of the core
  does.) The \<open>tokens\<close> table has no unique constraint on \<open>token\<close>.
\<close>

record db =
  users :: "User list"
  tokens :: "Token list"
  tokens_seq :: nat
  outage :: "nat option"


text \<open>
  An async function is a function from the database to what it settles with (\<open>Inl\<close> a
  rejection, \<open>Inr\<close> a value) and the database it leaves. There are no transactions:
  what was written before a rejection stays written.
\<close>

type_synonym 'a outcome = "(error + 'a) \<times> db"

definition resolve :: "'a \<Rightarrow> db \<Rightarrow> 'a outcome" where
  "resolve v s = (Inr v, s)"

definition throw :: "error \<Rightarrow> db \<Rightarrow> 'a outcome" where
  "throw e s = (Inl e, s)"

definition await :: "'a outcome \<Rightarrow> ('a \<Rightarrow> db \<Rightarrow> 'b outcome) \<Rightarrow> 'b outcome" where
  "await r k = (case r of (Inl e, s) \<Rightarrow> (Inl e, s) | (Inr v, s) \<Rightarrow> k v s)"

definition try_catch :: "'a outcome \<Rightarrow> (error \<Rightarrow> db \<Rightarrow> 'a outcome) \<Rightarrow> 'a outcome" where
  "try_catch r h = (case r of (Inl e, s) \<Rightarrow> h e s | (Inr v, s) \<Rightarrow> (Inr v, s))"

section \<open>The store (knex queries)\<close>

text \<open>Every query goes over the connection: it is rejected when the connection has failed.\<close>

definition query :: "db \<Rightarrow> unit outcome" where
  "query s =
     (case outage s of
        None \<Rightarrow> (Inr (), s)
      | Some 0 \<Rightarrow> (Inl StoreError, s)
      | Some (Suc n) \<Rightarrow> (Inr (), s\<lparr>outage := Some n\<rparr>))"

text \<open>
  \<open>spent k s s'\<close>: between the databases \<open>s\<close> and \<open>s'\<close> the connection has answered
  \<open>k\<close> queries.
\<close>

definition spent :: "nat \<Rightarrow> db \<Rightarrow> db \<Rightarrow> bool" where
  "spent k s s' =
     (case outage s of
        None \<Rightarrow> outage s' = None
      | Some n \<Rightarrow> k \<le> n \<and> outage s' = Some (n - k))"

text \<open>\<open>knex('tokens').where(P).first()\<close>: the first row in table order, if any.\<close>

definition tokens_where_first :: "(Token \<Rightarrow> bool) \<Rightarrow> db \<Rightarrow> Token option outcome" where
  "tokens_where_first P s = await (query s) (\<lambda>_ s'. (Inr (find P (tokens s')), s'))"

text \<open>\<open>knex('tokens').where(P).del()\<close>: every row that matches goes.\<close>

definition tokens_where_del :: "(Token \<Rightarrow> bool) \<Rightarrow> db \<Rightarrow> unit outcome" where
  "tokens_where_del P s =
     await (query s) (\<lambda>_ s'. (Inr (), s'\<lparr>tokens := filter (\<lambda>r. \<not> P r) (tokens s')\<rparr>))"

text \<open>
  \<open>knex('tokens').insert({...}).returning('*')\<close>: the row gets the next \<open>id\<close> of the
  sequence and \<open>created_at = now\<close>. When no row of \<open>users\<close> has the id \<open>user_id\<close>, the
  foreign key rejects the insert and the table stays as it was; the value taken from the
  sequence is spent all the same.
\<close>

definition tokens_insert ::
  "Moment \<Rightarrow> jwt \<Rightarrow> nat \<Rightarrow> Moment \<Rightarrow> TokenType \<Rightarrow> bool \<Rightarrow> db \<Rightarrow> Token outcome" where
  "tokens_insert now tok uid ex ty bl s =
     await (query s) (\<lambda>_ s'.
       let row = \<lparr>id_t = tokens_seq s', token = tok, type_t = ty, expires = ex,
                  blacklisted = bl, created_at = now, user_id = uid\<rparr>
       in if list_ex (\<lambda>u. id_u u = uid) (users s')
          then (Inr row, s'\<lparr>tokens := tokens s' @ [row], tokens_seq := Suc (tokens_seq s')\<rparr>)
          else (Inl ForeignKeyViolation, s'\<lparr>tokens_seq := Suc (tokens_seq s')\<rparr>))"

definition users_where_first :: "(User \<Rightarrow> bool) \<Rightarrow> db \<Rightarrow> User option outcome" where
  "users_where_first P s = await (query s) (\<lambda>_ s'. (Inr (find P (users s')), s'))"

definition apply_patch :: "UserPatch \<Rightarrow> User \<Rightarrow> User" where
  "apply_patch b u =
     u\<lparr>email := (case email_b b of None \<Rightarrow> email u | Some v \<Rightarrow> v),
       name := (case name_b b of None \<Rightarrow> name u | Some v \<Rightarrow> v),
       password := (case password_b b of None \<Rightarrow> password u | Some v \<Rightarrow> v),
       role := (case role_b b of None \<Rightarrow> role u | Some v \<Rightarrow> v),
       is_email_verified :=
         (case is_email_verified_b b of None \<Rightarrow> is_email_verified u | Some v \<Rightarrow> v)\<rparr>"

text \<open>
  \<open>knex('users').where(P).update(b).returning(keys)\<close>: every matching row is patched;
  the updated rows come back (the projection to \<open>keys\<close> is left out: no caller in the
  core reads the result).
\<close>

definition users_where_update :: "(User \<Rightarrow> bool) \<Rightarrow> UserPatch \<Rightarrow> db \<Rightarrow> User list outcome" where
  "users_where_update P b s =
     await (query s) (\<lambda>_ s'.
       (Inr (map (apply_patch b) (filter P (users s'))),
        s'\<lparr>users := map (\<lambda>u. if P u then apply_patch b u else u) (users s')\<rparr>))"

section \<open>Collaborators outside the sources\<close>

text \<open>
  Modelled from the spec: \<open>jwt.sign(payload, secret)\<close> of jsonwebtoken, which is not
  among the sources (spec 4.1, sign: a deterministic signature over the claim set).
\<close>

definition jwt_sign :: "payload \<Rightarrow> string \<Rightarrow> jwt" where
  "jwt_sign p k = Signed p k"

text \<open>
  Modelled from the spec: \<open>jwt.verify(token, secret)\<close> of jsonwebtoken, which is not
  among the sources (spec 4.1, verify: MalformedError when the token is unparsable or its
  signature is invalid; ExpiredError when the current time in Unix seconds is at or past
  the expiry claim; otherwise the claim set). The signature is checked before the expiry.
\<close>

definition jwt_verify :: "Moment \<Rightarrow> jwt \<Rightarrow> string \<Rightarrow> error + payload" where
  "jwt_verify now t k =
     (case t of
        Unparsable _ \<Rightarrow> Inl (JsonWebTokenError ''jwt malformed'')
      | Signed p k' \<Rightarrow>
          if k' \<noteq> k then Inl (JsonWebTokenError ''invalid signature'')
          else if exp p \<le> unix now then Inl TokenExpiredError
          else Inr p)"

text \<open>
  Modelled from the spec: \<open>encryptPassword\<close> and \<open>isPasswordMatch\<close> of utils/encryption,
  which is not among the sources (spec 6, hashing primitive: \<open>hash(plaintext) -> digest\<close>,
  \<open>compare(plaintext, digest) -> bool\<close>). A digest is represented symbolically, as the
  plaintext under a tag.
\<close>

definition encryptPassword :: "string \<Rightarrow> string" where
  "encryptPassword p = ''hash:'' @ p"

definition isPasswordMatch :: "string \<Rightarrow> string \<Rightarrow> bool" where
  "isPasswordMatch p digest = (digest = encryptPassword p)"

text \<open>
  Modelled from the spec: \<open>exclude(user, ['password'])\<close> of utils/exclude, which is not
  among the sources (spec 4.4, login: the user record with the password field stripped).
\<close>

definition exclude_password :: "User \<Rightarrow> UserSansPassword" where
  "exclude_password u =
     \<lparr>id_o = id_u u, email_o = email u, name_o = name u, role_o = role u,
      is_email_verified_o = is_email_verified u, created_at_o = created_at_u u,
      updated_at_o = updated_at u\<rparr>"

section \<open>user.service\<close>

definition getUserById :: "nat \<Rightarrow> db \<Rightarrow> User option outcome" where
  "getUserById i s = users_where_first (\<lambda>u. id_u u = i) s"

definition getUserByEmail :: "string \<Rightarrow> db \<Rightarrow> User option outcome" where
  "getUserByEmail e s = users_where_first (\<lambda>u. email u = e) s"

text \<open>
  \<open>update_row\<close> is the last statement of \<open>updateUserById\<close>: the update and the first of
  the rows it returns.
\<close>

definition update_row :: "nat \<Rightarrow> UserPatch \<Rightarrow> db \<Rightarrow> User option outcome" where
  "update_row userId updateBody s =
     await (users_where_update (\<lambda>u. id_u u = userId) updateBody s) (\<lambda>updated s'.
       (Inr (case updated of [] \<Rightarrow> None | updatedUser # _ \<Rightarrow> Some updatedUser), s'))"

definition updateUserById :: "nat \<Rightarrow> UserPatch \<Rightarrow> db \<Rightarrow> User option outcome" where
  "updateUserById userId updateBody s =
     await (getUserById userId s) (\<lambda>user s1.
       case user of
         None \<Rightarrow> throw (ApiError NOT_FOUND ''User not found'') s1
       | Some _ \<Rightarrow>
           (case email_b updateBody of
              None \<Rightarrow> update_row userId updateBody s1
            | Some e \<Rightarrow>
                if e = [] then update_row userId updateBody s1
                else await (getUserByEmail e s1) (\<lambda>taken s2.
                  case taken of
                    Some _ \<Rightarrow> throw (ApiError BAD_REQUEST ''Email already taken'') s2
                  | None \<Rightarrow> update_row userId updateBody s2)))"

section \<open>token.service\<close>

definition generateToken :: "Moment \<Rightarrow> nat \<Rightarrow> Moment \<Rightarrow> TokenType \<Rightarrow> string \<Rightarrow> jwt" where
  "generateToken now userId expires' type' secret' =
     jwt_sign \<lparr>sub = userId, iat = unix now, exp = unix expires', type_p = type'\<rparr> secret'"

definition saveToken ::
  "Moment \<Rightarrow> jwt \<Rightarrow> nat \<Rightarrow> Moment \<Rightarrow> TokenType \<Rightarrow> bool \<Rightarrow> db \<Rightarrow> Token outcome" where
  "saveToken now token' userId expires' type' blacklisted' s =
     tokens_insert now token' userId expires' type' blacklisted' s"

definition verifyToken :: "jwt_config \<Rightarrow> Moment \<Rightarrow> jwt \<Rightarrow> TokenType \<Rightarrow> db \<Rightarrow> Token outcome" where
  "verifyToken cfg now token' type' s =
     (case jwt_verify now token' (secret cfg) of
        Inl e \<Rightarrow> throw e s
      | Inr p \<Rightarrow>
          await (tokens_where_first (\<lambda>r. token r = token' \<and> type_t r = type' \<and>
                                   user_id r = sub p \<and> blacklisted r = False) s)
            (\<lambda>tokenData s1.
               case tokenData of
                 None \<Rightarrow> throw (Error ''Token not found'') s1
               | Some r \<Rightarrow> resolve r s1))"

definition generateAuthTokens ::
  "jwt_config \<Rightarrow> zone \<Rightarrow> Moment \<Rightarrow> nat \<Rightarrow> db \<Rightarrow> AuthTokensResponse outcome" where
  "generateAuthTokens cfg tz now userId s =
     (let accessTokenExpires = add_minutes now (accessExpirationMinutes cfg);
          accessToken = generateToken now userId accessTokenExpires ACCESS (secret cfg);
          refreshTokenExpires = add_days tz now (refreshExpirationDays cfg);
          refreshToken = generateToken now userId refreshTokenExpires REFRESH (secret cfg)
      in await (saveToken now refreshToken userId refreshTokenExpires REFRESH False s)
           (\<lambda>_ s1. resolve
              \<lparr>access = \<lparr>token_r = accessToken, expires_r = accessTokenExpires\<rparr>,
               refresh = \<lparr>token_r = refreshToken, expires_r = refreshTokenExpires\<rparr>\<rparr> s1))"

definition generateResetPasswordToken :: "jwt_config \<Rightarrow> Moment \<Rightarrow> string \<Rightarrow> db \<Rightarrow> jwt outcome" where
  "generateResetPasswordToken cfg now email' s =
     await (getUserByEmail email' s) (\<lambda>user s1.
       case user of
         None \<Rightarrow> throw (ApiError NOT_FOUND ''No users found with this email'') s1
       | Some u \<Rightarrow>
           (let expires' = add_minutes now (resetPasswordExpirationMinutes cfg);
                resetPasswordToken =
                  generateToken now (id_u u) expires' RESET_PASSWORD (secret cfg)
            in await (saveToken now resetPasswordToken (id_u u) expires' RESET_PASSWORD False s1)
                 (\<lambda>_ s2. resolve resetPasswordToken s2)))"

definition generateVerifyEmailToken :: "jwt_config \<Rightarrow> Moment \<Rightarrow> nat \<Rightarrow> db \<Rightarrow> jwt outcome" where
  "generateVerifyEmailToken cfg now userId s =
     (let expires' = add_minutes now (verifyEmailExpirationMinutes cfg);
          verifyEmailToken = generateToken now userId expires' VERIFY_EMAIL (secret cfg)
      in await (saveToken now verifyEmailToken userId expires' VERIFY_EMAIL False s)
           (\<lambda>_ s1. resolve verifyEmailToken s1))"

section \<open>auth.service\<close>

definition loginUserWithEmailAndPassword ::
  "string \<Rightarrow> string \<Rightarrow> db \<Rightarrow> UserSansPassword outcome" where
  "loginUserWithEmailAndPassword email' password' s =
     await (getUserByEmail email' s) (\<lambda>user s1.
       case user of
         None \<Rightarrow> throw (ApiError UNAUTHORIZED ''Incorrect email or password'') s1
       | Some u \<Rightarrow>
           if \<not> isPasswordMatch password' (password u)
           then throw (ApiError UNAUTHORIZED ''Incorrect email or password'') s1
           else resolve (exclude_password u) s1)"

definition logout :: "jwt \<Rightarrow> db \<Rightarrow> unit outcome" where
  "logout refreshToken s =
     await (tokens_where_first (\<lambda>r. token r = refreshToken \<and> type_t r = REFRESH \<and>
                              blacklisted r = False) s)
       (\<lambda>refreshTokenData s1.
          case refreshTokenData of
            None \<Rightarrow> throw (ApiError NOT_FOUND ''Not found'') s1
          | Some r \<Rightarrow> tokens_where_del (\<lambda>x. id_t x = id_t r) s1)"

text \<open>
  \<open>refreshAuth\<close> returns the promise of \<open>generateAuthTokens\<close> from inside its \<open>try\<close>
  without awaiting it: the \<open>try\<close> block settles with the promise itself, and the promise
  is awaited by the caller, outside the \<open>catch\<close>.
\<close>

definition refreshAuth ::
  "jwt_config \<Rightarrow> zone \<Rightarrow> Moment \<Rightarrow> jwt \<Rightarrow> db \<Rightarrow> AuthTokensResponse outcome" where
  "refreshAuth cfg tz now refreshToken s =
     await
       (try_catch
          (await (verifyToken cfg now refreshToken REFRESH s) (\<lambda>refreshTokenData s1.
             await (tokens_where_del (\<lambda>x. id_t x = id_t refreshTokenData) s1) (\<lambda>_ s2.
               resolve (generateAuthTokens cfg tz now (user_id refreshTokenData)) s2)))
          (\<lambda>_ s'. throw (ApiError UNAUTHORIZED ''Please authenticate'') s'))
       (\<lambda>promise s3. promise s3)"

definition resetPassword :: "jwt_config \<Rightarrow> Moment \<Rightarrow> jwt \<Rightarrow> string \<Rightarrow> db \<Rightarrow> unit outcome" where
  "resetPassword cfg now resetPasswordToken newPassword s =
     try_catch
       (await (verifyToken cfg now resetPasswordToken RESET_PASSWORD s)
          (\<lambda>resetPasswordTokenData s1.
             await (getUserById (user_id resetPasswordTokenData) s1) (\<lambda>user s2.
               case user of
                 None \<Rightarrow> throw (Error []) s2
               | Some u \<Rightarrow>
                   await (updateUserById (id_u u)
                            \<lparr>email_b = None, name_b = None,
                             password_b = Some (encryptPassword newPassword),
                             role_b = None, is_email_verified_b = None\<rparr> s2)
                     (\<lambda>_ s3. tokens_where_del (\<lambda>x. user_id x = id_u u \<and>
                                               type_t x = RESET_PASSWORD) s3))))
       (\<lambda>_ s'. throw (ApiError UNAUTHORIZED ''Password reset failed'') s')"

definition verifyEmail :: "jwt_config \<Rightarrow> Moment \<Rightarrow> jwt \<Rightarrow> db \<Rightarrow> unit outcome" where
  "verifyEmail cfg now verifyEmailToken s =
     try_catch
       (await (verifyToken cfg now verifyEmailToken VERIFY_EMAIL s)
          (\<lambda>verifyEmailTokenData s1.
             await (tokens_where_del (\<lambda>x. user_id x = user_id verifyEmailTokenData \<and>
                                    type_t x = VERIFY_EMAIL) s1)
               (\<lambda>_ s2.
                  await (updateUserById (user_id verifyEmailTokenData)
                           \<lparr>email_b = None, name_b = None, password_b = None,
                            role_b = None, is_email_verified_b = Some True\<rparr> s2)
                    (\<lambda>_ s3. resolve () s3))))
       (\<lambda>_ s'. throw (ApiError UNAUTHORIZED ''Email verification failed'') s')"

section \<open>Example data\<close>

definition cfg_ex :: jwt_config where
  "cfg_ex = \<lparr>secret = ''k'', accessExpirationMinutes = 30, refreshExpirationDays = 30,
             resetPasswordExpirationMinutes = 30, verifyEmailExpirationMinutes = 30\<rparr>"

definition alice :: User where
  "alice = \<lparr>id_u = 1, email = ''a@x.com'', name = None,
            password = encryptPassword ''secret123'', role = USER,
            is_email_verified = False, created_at_u = 0, updated_at = 0\<rparr>"

definition db_ex :: db where
  "db_ex = \<lparr>users = [alice], tokens = [], tokens_seq = 1, outage = None\<rparr>"

text \<open>Two password-reset requests of the same user, four seconds apart.\<close>

definition db_two_resets :: db where
  "db_two_resets =
     snd (generateResetPasswordToken cfg_ex 5000 ''a@x.com''
            (snd (generateResetPasswordToken cfg_ex 1000 ''a@x.com'' db_ex)))"

text \<open>
  A session: the user with id 1 is issued tokens at 1000 ms. \<open>refresh_ex\<close> is the refresh
  token of that session. \<open>db_refreshed\<close> is the database after that token was refreshed
  at 1500 ms. \<open>db_two_sessions\<close> is the database after the same user was issued tokens
  a second time, at 1200 ms, and \<open>db_logged_out\<close> the one after a logout with
  \<open>refresh_ex\<close> then.
\<close>

definition refresh_ex :: jwt where
  "refresh_ex = generateToken 1000 1 (add_days utc 1000 30) REFRESH ''k''"

definition db_session :: db where
  "db_session = snd (generateAuthTokens cfg_ex utc 1000 1 db_ex)"

definition db_refreshed :: db where
  "db_refreshed = snd (refreshAuth cfg_ex utc 1500 refresh_ex db_session)"

definition db_two_sessions :: db where
  "db_two_sessions = snd (generateAuthTokens cfg_ex utc 1200 1 db_session)"

definition db_logged_out :: db where
  "db_logged_out = snd (logout refresh_ex db_two_sessions)"

text \<open>The user with id 1 is sent an email-verification token at 1000 ms.\<close>

definition verify_ex :: jwt where
  "verify_ex = generateToken 1000 1 1801000 VERIFY_EMAIL ''k''"

definition db_verify :: db where
  "db_verify = snd (generateVerifyEmailToken cfg_ex 1000 1 db_ex)"

section \<open>Basic facts\<close>

lemma await_Inr [simp]: "await (Inr v, s) k = k v s"
  by (simp add: await_def)

lemma await_Inl [simp]: "await (Inl e, s) k = (Inl e, s)"
  by (simp add: await_def)

lemma try_catch_Inr [simp]: "try_catch (Inr v, s) h = (Inr v, s)"
  by (simp add: try_catch_def)

lemma try_catch_Inl [simp]: "try_catch (Inl e, s) h = h e s"
  by (simp add: try_catch_def)

subsection \<open>The store while the connection holds\<close>

lemma query_up: "outage s = None \<Longrightarrow> query s = (Inr (), s)"
  by (simp add: query_def)

lemma tokens_where_first_up:
  "outage s = None \<Longrightarrow> tokens_where_first P s = (Inr (find P (tokens s)), s)"
  by (simp add: tokens_where_first_def query_up)

lemma tokens_where_del_up:
  "outage s = None \<Longrightarrow>
   tokens_where_del P s = (Inr (), s\<lparr>tokens := filter (\<lambda>r. \<not> P r) (tokens s)\<rparr>)"
  by (simp add: tokens_where_del_def query_up)

lemma tokens_insert_up:
  "outage s = None \<Longrightarrow> list_ex (\<lambda>u. id_u u = uid) (users s) \<Longrightarrow>
   tokens_insert now tok uid ex ty bl s =
     (Inr \<lparr>id_t = tokens_seq s, token = tok, type_t = ty, expires = ex,
            blacklisted = bl, created_at = now, user_id = uid\<rparr>,
      s\<lparr>tokens := tokens s @ [\<lparr>id_t = tokens_seq s, token = tok, type_t = ty, expires = ex,
            blacklisted = bl, created_at = now, user_id = uid\<rparr>],
        tokens_seq := Suc (tokens_seq s)\<rparr>)"
  by (simp add: tokens_insert_def query_up Let_def)

lemma tokens_insert_no_owner:
  "outage s = None \<Longrightarrow> \<not> list_ex (\<lambda>u. id_u u = uid) (users s) \<Longrightarrow>
   tokens_insert now tok uid ex ty bl s =
     (Inl ForeignKeyViolation, s\<lparr>tokens_seq := Suc (tokens_seq s)\<rparr>)"
  by (simp add: tokens_insert_def query_up Let_def)

lemma found_user_exists:
  "find P (users s) = Some u \<Longrightarrow> list_ex (\<lambda>x. id_u x = id_u u) (users s)"
  by (auto simp: find_Some_iff list_ex_iff)

lemma users_where_first_up:
  "outage s = None \<Longrightarrow> users_where_first P s = (Inr (find P (users s)), s)"
  by (simp add: users_where_first_def query_up)

lemma users_where_update_up:
  "outage s = None \<Longrightarrow>
   users_where_update P b s =
     (Inr (map (apply_patch b) (filter P (users s))),
      s\<lparr>users := map (\<lambda>u. if P u then apply_patch b u else u) (users s)\<rparr>)"
  by (simp add: users_where_update_def query_up)

lemma find_by_id_key: "find (\<lambda>u. id_u u = i) xs = Some u \<Longrightarrow> id_u u = i"
  by (induction xs) (auto split: if_splits)

lemma find_some_of_member:
  "x \<in> set xs \<Longrightarrow> P x \<Longrightarrow> \<exists>y. find P xs = Some y \<and> P y \<and> y \<in> set xs"
proof (induction xs)
  case Nil
  then show ?case by simp
next
  case (Cons a xs)
  then show ?case by (cases "P a") auto
qed

lemma verifyToken_up:
  "outage s = None \<Longrightarrow>
   verifyToken cfg now tok ty s =
     (case jwt_verify now tok (secret cfg) of
        Inl e \<Rightarrow> (Inl e, s)
      | Inr p \<Rightarrow>
          (case find (\<lambda>r. token r = tok \<and> type_t r = ty \<and> user_id r = sub p \<and>
                          blacklisted r = False) (tokens s) of
             None \<Rightarrow> (Inl (Error ''Token not found''), s)
           | Some r \<Rightarrow> (Inr r, s)))"
  by (simp add: verifyToken_def tokens_where_first_up throw_def resolve_def
      split: sum.splits option.splits)

lemma updateUserById_up:
  "outage s = None \<Longrightarrow> email_b b = None \<Longrightarrow>
   updateUserById i b s =
     (case find (\<lambda>u. id_u u = i) (users s) of
        None \<Rightarrow> (Inl (ApiError NOT_FOUND ''User not found''), s)
      | Some _ \<Rightarrow>
          (Inr (case map (apply_patch b) (filter (\<lambda>u. id_u u = i) (users s)) of
                  [] \<Rightarrow> None | updatedUser # _ \<Rightarrow> Some updatedUser),
           s\<lparr>users := map (\<lambda>u. if id_u u = i then apply_patch b u else u) (users s)\<rparr>))"
  by (simp add: updateUserById_def getUserById_def update_row_def users_where_first_up
      users_where_update_up throw_def split: option.splits)

section \<open>Login\<close>

text \<open>
  C5. While the store answers, \<open>loginUserWithEmailAndPassword\<close> rejects with the one
  error \<open>ApiError 401 'Incorrect email or password'\<close> both when no user has the email and
  when the password does not match the stored hash, and on a match it returns the user
  found, without the password field. The database is left as it was.
\<close>

theorem login_rejects_alike_or_returns_user:
  assumes "outage s = None"
  shows "(find (\<lambda>u. email u = e) (users s) = None \<longrightarrow>
            loginUserWithEmailAndPassword e pw s =
              (Inl (ApiError UNAUTHORIZED ''Incorrect email or password''), s)) \<and>
         (\<forall>u. find (\<lambda>u. email u = e) (users s) = Some u \<and> \<not> isPasswordMatch pw (password u) \<longrightarrow>
            loginUserWithEmailAndPassword e pw s =
              (Inl (ApiError UNAUTHORIZED ''Incorrect email or password''), s)) \<and>
         (\<forall>u. find (\<lambda>u. email u = e) (users s) = Some u \<and> isPasswordMatch pw (password u) \<longrightarrow>
            loginUserWithEmailAndPassword e pw s = (Inr (exclude_password u), s))"
  using assms
  by (simp add: loginUserWithEmailAndPassword_def getUserByEmail_def users_where_first_up
      throw_def resolve_def)

theorem login_rejects_alike_or_returns_user_witness:
  "outage db_ex = None \<and>
   loginUserWithEmailAndPassword ''b@x.com'' ''secret123'' db_ex =
     (Inl (ApiError UNAUTHORIZED ''Incorrect email or password''), db_ex) \<and>
   loginUserWithEmailAndPassword ''a@x.com'' ''secret124'' db_ex =
     (Inl (ApiError UNAUTHORIZED ''Incorrect email or password''), db_ex) \<and>
   loginUserWithEmailAndPassword ''a@x.com'' ''secret123'' db_ex =
     (Inr (exclude_password alice), db_ex)"
proof -
  have up: "outage db_ex = None"
    by (simp add: db_ex_def)
  have absent: "find (\<lambda>u. email u = ''b@x.com'') (users db_ex) = None"
    by (simp add: db_ex_def alice_def)
  have found: "find (\<lambda>u. email u = ''a@x.com'') (users db_ex) = Some alice"
    by (simp add: db_ex_def alice_def)
  have wrong: "\<not> isPasswordMatch ''secret124'' (password alice)"
    by (simp add: isPasswordMatch_def alice_def encryptPassword_def)
  have right: "isPasswordMatch ''secret123'' (password alice)"
    by (simp add: isPasswordMatch_def alice_def)
  from login_rejects_alike_or_returns_user [OF up, of "''b@x.com''" "''secret123''"] absent
  have a: "loginUserWithEmailAndPassword ''b@x.com'' ''secret123'' db_ex =
             (Inl (ApiError UNAUTHORIZED ''Incorrect email or password''), db_ex)"
    by blast
  from login_rejects_alike_or_returns_user [OF up, of "''a@x.com''" "''secret124''"] found wrong
  have b: "loginUserWithEmailAndPassword ''a@x.com'' ''secret124'' db_ex =
             (Inl (ApiError UNAUTHORIZED ''Incorrect email or password''), db_ex)"
    by blast
  from login_rejects_alike_or_returns_user [OF up, of "''a@x.com''" "''secret123''"] found right
  have c: "loginUserWithEmailAndPassword ''a@x.com'' ''secret123'' db_ex =
             (Inr (exclude_password alice), db_ex)"
    by blast
  from up a b c show ?thesis
    by blast
qed

section \<open>Issuing tokens\<close>

text \<open>
  C8. While the store answers, \<open>generateResetPasswordToken\<close> rejects with
  \<open>ApiError 404 'No users found with this email'\<close> when no user has the email and leaves
  the database as it was. When a user has it, the token returned is the claim set
  \<open>{sub: the user's id, iat: the current second, exp: the second of the expiry, type:
  RESET_PASSWORD}\<close> signed with the configured key, where the expiry is
  \<open>resetPasswordExpirationMinutes\<close> times 60000 ms after now; one ledger row is appended
  that holds this token, its owner, its type and its expiry. In the database left,
  \<open>verifyToken\<close> accepts the token as a RESET_PASSWORD token of that user at every time
  before the second of the expiry, and \<open>jwt.verify\<close> rejects it as expired from that
  second on.
\<close>

theorem reset_request_not_found_or_token_saved:
  assumes "outage s = None"
  shows "(find (\<lambda>u. email u = e) (users s) = None \<longrightarrow>
            generateResetPasswordToken cfg now e s =
              (Inl (ApiError NOT_FOUND ''No users found with this email''), s)) \<and>
         (\<forall>u ex tok.
            find (\<lambda>u. email u = e) (users s) = Some u \<and>
            ex = now + resetPasswordExpirationMinutes cfg * 60000 \<and>
            tok = Signed \<lparr>sub = id_u u, iat = now div 1000, exp = ex div 1000,
                          type_p = RESET_PASSWORD\<rparr> (secret cfg) \<longrightarrow>
            generateResetPasswordToken cfg now e s =
              (Inr tok,
               s\<lparr>tokens := tokens s @
                    [\<lparr>id_t = tokens_seq s, token = tok, type_t = RESET_PASSWORD, expires = ex,
                      blacklisted = False, created_at = now, user_id = id_u u\<rparr>],
                 tokens_seq := Suc (tokens_seq s)\<rparr>) \<and>
            (\<forall>now'. now' div 1000 < ex div 1000 \<longrightarrow>
               (\<exists>r. verifyToken cfg now' tok RESET_PASSWORD
                      (snd (generateResetPasswordToken cfg now e s)) =
                        (Inr r, snd (generateResetPasswordToken cfg now e s)) \<and>
                    token r = tok \<and> user_id r = id_u u \<and> type_t r = RESET_PASSWORD)) \<and>
            (\<forall>now'. ex div 1000 \<le> now' div 1000 \<longrightarrow>
               jwt_verify now' tok (secret cfg) = Inl TokenExpiredError))"
proof (intro conjI allI impI)
  assume "find (\<lambda>u. email u = e) (users s) = None"
  with assms show "generateResetPasswordToken cfg now e s =
      (Inl (ApiError NOT_FOUND ''No users found with this email''), s)"
    by (simp add: generateResetPasswordToken_def getUserByEmail_def users_where_first_up
        throw_def)
next
  fix u :: User and ex :: int and tok :: jwt
  assume h: "find (\<lambda>u. email u = e) (users s) = Some u \<and>
             ex = now + resetPasswordExpirationMinutes cfg * 60000 \<and>
             tok = Signed \<lparr>sub = id_u u, iat = now div 1000, exp = ex div 1000,
                           type_p = RESET_PASSWORD\<rparr> (secret cfg)"
  let ?row = "\<lparr>id_t = tokens_seq s, token = tok, type_t = RESET_PASSWORD, expires = ex,
               blacklisted = False, created_at = now, user_id = id_u u\<rparr>"
  let ?s' = "s\<lparr>tokens := tokens s @ [?row], tokens_seq := Suc (tokens_seq s)\<rparr>"
  from h have "find (\<lambda>u. email u = e) (users s) = Some u"
    by simp
  then have owner: "list_ex (\<lambda>x. id_u x = id_u u) (users s)"
    by (rule found_user_exists)
  show run: "generateResetPasswordToken cfg now e s = (Inr tok, ?s')"
    using assms h owner
    by (simp add: generateResetPasswordToken_def getUserByEmail_def users_where_first_up
        saveToken_def tokens_insert_up resolve_def Let_def generateToken_def jwt_sign_def
        unix_def add_minutes_def)
  have up': "outage ?s' = None"
    using assms by simp
  show "\<exists>r. verifyToken cfg now' tok RESET_PASSWORD
              (snd (generateResetPasswordToken cfg now e s)) =
                (Inr r, snd (generateResetPasswordToken cfg now e s)) \<and>
            token r = tok \<and> user_id r = id_u u \<and> type_t r = RESET_PASSWORD"
    if fresh: "now' div 1000 < ex div 1000" for now'
  proof -
    let ?P = "\<lambda>x. token x = tok \<and> type_t x = RESET_PASSWORD \<and> user_id x = id_u u \<and>
                   blacklisted x = False"
    have jwt: "jwt_verify now' tok (secret cfg) =
                 Inr \<lparr>sub = id_u u, iat = now div 1000, exp = ex div 1000,
                      type_p = RESET_PASSWORD\<rparr>"
      using h fresh by (simp add: jwt_verify_def unix_def)
    have "?row \<in> set (tokens ?s')" and "?P ?row"
      by simp_all
    then obtain r where found: "find ?P (tokens ?s') = Some r" and ok: "?P r"
      using find_some_of_member [of ?row "tokens ?s'" ?P] by blast
    have "verifyToken cfg now' tok RESET_PASSWORD ?s' = (Inr r, ?s')"
      using found by (simp add: verifyToken_up [OF up'] jwt)
    with ok show ?thesis
      by (auto simp: run)
  qed
  show "jwt_verify now' tok (secret cfg) = Inl TokenExpiredError"
    if "ex div 1000 \<le> now' div 1000" for now'
    using h that by (simp add: jwt_verify_def unix_def)
qed

theorem reset_request_not_found_or_token_saved_witness:
  "outage db_ex = None \<and>
   generateResetPasswordToken cfg_ex 1000 ''b@x.com'' db_ex =
     (Inl (ApiError NOT_FOUND ''No users found with this email''), db_ex) \<and>
   generateResetPasswordToken cfg_ex 1000 ''a@x.com'' db_ex =
     (Inr (Signed \<lparr>sub = 1, iat = 1, exp = 1801, type_p = RESET_PASSWORD\<rparr> ''k''),
      db_ex\<lparr>tokens := [\<lparr>id_t = 1,
                           token = Signed \<lparr>sub = 1, iat = 1, exp = 1801,
                                           type_p = RESET_PASSWORD\<rparr> ''k'',
                           type_t = RESET_PASSWORD, expires = 1801000, blacklisted = False,
                           created_at = 1000, user_id = 1\<rparr>],
            tokens_seq := 2\<rparr>) \<and>
   jwt_verify 1801000 (Signed \<lparr>sub = 1, iat = 1, exp = 1801, type_p = RESET_PASSWORD\<rparr> ''k'')
     ''k'' = Inl TokenExpiredError"
proof -
  let ?tok = "Signed \<lparr>sub = 1, iat = 1, exp = 1801, type_p = RESET_PASSWORD\<rparr> ''k''"
  have up: "outage db_ex = None"
    by (simp add: db_ex_def)
  have absent: "find (\<lambda>u. email u = ''b@x.com'') (users db_ex) = None"
    by (simp add: db_ex_def alice_def)
  have found: "find (\<lambda>u. email u = ''a@x.com'') (users db_ex) = Some alice \<and>
               (1801000::int) = 1000 + resetPasswordExpirationMinutes cfg_ex * 60000 \<and>
               ?tok = Signed \<lparr>sub = id_u alice, iat = 1000 div 1000, exp = 1801000 div 1000,
                               type_p = RESET_PASSWORD\<rparr> (secret cfg_ex)"
    by (simp add: db_ex_def alice_def cfg_ex_def)
  have vals: "id_u alice = 1" "secret cfg_ex = ''k''" "tokens db_ex = []" "tokens_seq db_ex = 1"
    by (simp_all add: alice_def cfg_ex_def db_ex_def)
  from reset_request_not_found_or_token_saved [OF up, of "''b@x.com''" cfg_ex 1000] absent
  have a: "generateResetPasswordToken cfg_ex 1000 ''b@x.com'' db_ex =
             (Inl (ApiError NOT_FOUND ''No users found with this email''), db_ex)"
    by blast
  from reset_request_not_found_or_token_saved [OF up, of "''a@x.com''" cfg_ex 1000] found
  have saved: "generateResetPasswordToken cfg_ex 1000 ''a@x.com'' db_ex =
      (Inr ?tok,
       db_ex\<lparr>tokens := tokens db_ex @
                 [\<lparr>id_t = tokens_seq db_ex, token = ?tok, type_t = RESET_PASSWORD,
                   expires = 1801000, blacklisted = False, created_at = 1000,
                   user_id = id_u alice\<rparr>],
             tokens_seq := Suc (tokens_seq db_ex)\<rparr>)"
    and expired: "\<forall>now'. (1801000::int) div 1000 \<le> now' div 1000 \<longrightarrow>
                   jwt_verify now' ?tok (secret cfg_ex) = Inl TokenExpiredError"
    by blast+
  from saved have b: "generateResetPasswordToken cfg_ex 1000 ''a@x.com'' db_ex =
     (Inr ?tok,
      db_ex\<lparr>tokens := [\<lparr>id_t = 1, token = ?tok, type_t = RESET_PASSWORD, expires = 1801000,
                           blacklisted = False, created_at = 1000, user_id = 1\<rparr>],
            tokens_seq := 2\<rparr>)"
    by (simp add: vals)
  from expired have c: "jwt_verify 1801000 ?tok ''k'' = Inl TokenExpiredError"
    by (simp add: vals)
  from up a b c show ?thesis
    by blast
qed

text \<open>
  C9, as the claim states it, fails: for a user id that no row of \<open>users\<close> has, the
  foreign key of \<open>tokens.user_id\<close> rejects the insert and \<open>generateAuthTokens\<close> adds no
  ledger row.
\<close>

theorem generateAuthTokens_unknown_user_counterexample:
  "\<not> list_ex (\<lambda>u. id_u u = 7) (users db_ex) \<and>
   generateAuthTokens cfg_ex utc 1000 7 db_ex =
     (Inl ForeignKeyViolation, db_ex\<lparr>tokens_seq := 2\<rparr>) \<and>
   tokens (snd (generateAuthTokens cfg_ex utc 1000 7 db_ex)) = tokens db_ex"
  by (simp add: generateAuthTokens_def saveToken_def tokens_insert_def query_def Let_def
      db_ex_def alice_def)

text \<open>
  C9, amended. While the store answers and the user id is the id of a row of \<open>users\<close>,
  \<open>generateAuthTokens\<close> returns an ACCESS and a REFRESH token, each the claim set
  \<open>{sub: the user id, iat: the current second, exp: the second of its expiry, type}\<close>
  signed with the configured key, and appends exactly one ledger row: it holds the REFRESH
  token, for that user. The ACCESS token gets no row. While the store answers and no row of
  \<open>users\<close> has the user id, the insert is rejected and no row is added. In every case the
  users table stays as it was and so do the rows that were in the ledger: the ledger is
  either unchanged or longer by one REFRESH row of that user.
\<close>

theorem generateAuthTokens_saves_only_refresh:
  "(\<forall>ax rx.
      outage s = None \<and> list_ex (\<lambda>u. id_u u = userId) (users s) \<and>
      ax = now + accessExpirationMinutes cfg * 60000 \<and>
      rx = now + refreshExpirationDays cfg * 86400000 + tz now (refreshExpirationDays cfg) \<longrightarrow>
      generateAuthTokens cfg tz now userId s =
        (Inr \<lparr>access =
                \<lparr>token_r = Signed \<lparr>sub = userId, iat = now div 1000, exp = ax div 1000,
                                    type_p = ACCESS\<rparr> (secret cfg),
                 expires_r = ax\<rparr>,
              refresh =
                \<lparr>token_r = Signed \<lparr>sub = userId, iat = now div 1000, exp = rx div 1000,
                                    type_p = REFRESH\<rparr> (secret cfg),
                 expires_r = rx\<rparr>\<rparr>,
         s\<lparr>tokens := tokens s @
              [\<lparr>id_t = tokens_seq s,
                token = Signed \<lparr>sub = userId, iat = now div 1000, exp = rx div 1000,
                                type_p = REFRESH\<rparr> (secret cfg),
                type_t = REFRESH, expires = rx, blacklisted = False, created_at = now,
                user_id = userId\<rparr>],
           tokens_seq := Suc (tokens_seq s)\<rparr>)) \<and>
   (outage s = None \<and> \<not> list_ex (\<lambda>u. id_u u = userId) (users s) \<longrightarrow>
      generateAuthTokens cfg tz now userId s =
        (Inl ForeignKeyViolation, s\<lparr>tokens_seq := Suc (tokens_seq s)\<rparr>)) \<and>
   users (snd (generateAuthTokens cfg tz now userId s)) = users s \<and>
   (tokens (snd (generateAuthTokens cfg tz now userId s)) = tokens s \<or>
    (\<exists>row. tokens (snd (generateAuthTokens cfg tz now userId s)) = tokens s @ [row] \<and>
           type_t row = REFRESH \<and> user_id row = userId))"
proof (intro conjI allI impI)
  fix ax rx :: int
  assume "outage s = None \<and> list_ex (\<lambda>u. id_u u = userId) (users s) \<and>
      ax = now + accessExpirationMinutes cfg * 60000 \<and>
      rx = now + refreshExpirationDays cfg * 86400000 + tz now (refreshExpirationDays cfg)"
  then show "generateAuthTokens cfg tz now userId s =
        (Inr \<lparr>access =
                \<lparr>token_r = Signed \<lparr>sub = userId, iat = now div 1000, exp = ax div 1000,
                                    type_p = ACCESS\<rparr> (secret cfg),
                 expires_r = ax\<rparr>,
              refresh =
                \<lparr>token_r = Signed \<lparr>sub = userId, iat = now div 1000, exp = rx div 1000,
                                    type_p = REFRESH\<rparr> (secret cfg),
                 expires_r = rx\<rparr>\<rparr>,
         s\<lparr>tokens := tokens s @
              [\<lparr>id_t = tokens_seq s,
                token = Signed \<lparr>sub = userId, iat = now div 1000, exp = rx div 1000,
                                type_p = REFRESH\<rparr> (secret cfg),
                type_t = REFRESH, expires = rx, blacklisted = False, created_at = now,
                user_id = userId\<rparr>],
           tokens_seq := Suc (tokens_seq s)\<rparr>)"
    by (simp add: generateAuthTokens_def saveToken_def tokens_insert_up resolve_def Let_def
        generateToken_def jwt_sign_def unix_def add_minutes_def add_days_def)
next
  assume "outage s = None \<and> \<not> list_ex (\<lambda>u. id_u u = userId) (users s)"
  then show "generateAuthTokens cfg tz now userId s =
        (Inl ForeignKeyViolation, s\<lparr>tokens_seq := Suc (tokens_seq s)\<rparr>)"
    by (simp add: generateAuthTokens_def saveToken_def tokens_insert_no_owner Let_def)
next
  show "users (snd (generateAuthTokens cfg tz now userId s)) = users s"
    by (simp add: generateAuthTokens_def saveToken_def tokens_insert_def query_def resolve_def
        Let_def split: option.splits nat.splits)
next
  show "tokens (snd (generateAuthTokens cfg tz now userId s)) = tokens s \<or>
    (\<exists>row. tokens (snd (generateAuthTokens cfg tz now userId s)) = tokens s @ [row] \<and>
           type_t row = REFRESH \<and> user_id row = userId)"
    by (simp add: generateAuthTokens_def saveToken_def tokens_insert_def query_def resolve_def
        Let_def split: option.splits nat.splits)
qed

theorem generateAuthTokens_saves_only_refresh_witness:
  "generateAuthTokens cfg_ex utc 1000 1 db_ex =
     (Inr \<lparr>access =
             \<lparr>token_r = Signed \<lparr>sub = 1, iat = 1, exp = 1801, type_p = ACCESS\<rparr> ''k'',
              expires_r = 1801000\<rparr>,
           refresh =
             \<lparr>token_r = Signed \<lparr>sub = 1, iat = 1, exp = 2592001, type_p = REFRESH\<rparr> ''k'',
              expires_r = 2592001000\<rparr>\<rparr>,
      db_ex\<lparr>tokens := [\<lparr>id_t = 1,
                           token = Signed \<lparr>sub = 1, iat = 1, exp = 2592001,
                                           type_p = REFRESH\<rparr> ''k'',
                           type_t = REFRESH, expires = 2592001000, blacklisted = False,
                           created_at = 1000, user_id = 1\<rparr>],
            tokens_seq := 2\<rparr>) \<and>
   generateAuthTokens cfg_ex utc 1000 7 db_ex =
     (Inl ForeignKeyViolation, db_ex\<lparr>tokens_seq := 2\<rparr>)"
proof -
  have known: "outage db_ex = None \<and> list_ex (\<lambda>u. id_u u = 1) (users db_ex) \<and>
      (1801000::int) = 1000 + accessExpirationMinutes cfg_ex * 60000 \<and>
      (2592001000::int) = 1000 + refreshExpirationDays cfg_ex * 86400000 +
                            utc 1000 (refreshExpirationDays cfg_ex)"
    by (simp add: db_ex_def alice_def cfg_ex_def utc_def)
  have unknown: "outage db_ex = None \<and> \<not> list_ex (\<lambda>u. id_u u = 7) (users db_ex)"
    by (simp add: db_ex_def alice_def)
  have vals: "secret cfg_ex = ''k''" "tokens db_ex = []" "tokens_seq db_ex = 1"
    by (simp_all add: cfg_ex_def db_ex_def)
  from generateAuthTokens_saves_only_refresh [of db_ex 1 1000 cfg_ex utc] known
  have "generateAuthTokens cfg_ex utc 1000 1 db_ex =
        (Inr \<lparr>access =
                \<lparr>token_r = Signed \<lparr>sub = 1, iat = 1000 div 1000, exp = 1801000 div 1000,
                                    type_p = ACCESS\<rparr> (secret cfg_ex),
                 expires_r = 1801000\<rparr>,
              refresh =
                \<lparr>token_r = Signed \<lparr>sub = 1, iat = 1000 div 1000, exp = 2592001000 div 1000,
                                    type_p = REFRESH\<rparr> (secret cfg_ex),
                 expires_r = 2592001000\<rparr>\<rparr>,
         db_ex\<lparr>tokens := tokens db_ex @
              [\<lparr>id_t = tokens_seq db_ex,
                token = Signed \<lparr>sub = 1, iat = 1000 div 1000, exp = 2592001000 div 1000,
                                type_p = REFRESH\<rparr> (secret cfg_ex),
                type_t = REFRESH, expires = 2592001000, blacklisted = False,
                created_at = 1000, user_id = 1\<rparr>],
           tokens_seq := Suc (tokens_seq db_ex)\<rparr>)"
    by blast
  then have a: "generateAuthTokens cfg_ex utc 1000 1 db_ex =
     (Inr \<lparr>access =
             \<lparr>token_r = Signed \<lparr>sub = 1, iat = 1, exp = 1801, type_p = ACCESS\<rparr> ''k'',
              expires_r = 1801000\<rparr>,
           refresh =
             \<lparr>token_r = Signed \<lparr>sub = 1, iat = 1, exp = 2592001, type_p = REFRESH\<rparr> ''k'',
              expires_r = 2592001000\<rparr>\<rparr>,
      db_ex\<lparr>tokens := [\<lparr>id_t = 1,
                           token = Signed \<lparr>sub = 1, iat = 1, exp = 2592001,
                                           type_p = REFRESH\<rparr> ''k'',
                           type_t = REFRESH, expires = 2592001000, blacklisted = False,
                           created_at = 1000, user_id = 1\<rparr>],
            tokens_seq := 2\<rparr>)"
    by (simp add: vals)
  from generateAuthTokens_saves_only_refresh [of db_ex 7 1000 cfg_ex utc] unknown
  have "generateAuthTokens cfg_ex utc 1000 7 db_ex =
          (Inl ForeignKeyViolation, db_ex\<lparr>tokens_seq := Suc (tokens_seq db_ex)\<rparr>)"
    by blast
  then have b: "generateAuthTokens cfg_ex utc 1000 7 db_ex =
                  (Inl ForeignKeyViolation, db_ex\<lparr>tokens_seq := 2\<rparr>)"
    by (simp add: vals)
  from a b show ?thesis
    by blast
qed

section \<open>Email verification\<close>

lemma query_down: "outage s = Some 0 \<Longrightarrow> query s = (Inl StoreError, s)"
  by (simp add: query_def)

lemma query_more: "outage s = Some (Suc n) \<Longrightarrow> query s = (Inr (), s\<lparr>outage := Some n\<rparr>)"
  by (simp add: query_def)




section \<open>Password reset\<close>

lemma resetPassword_up:
  assumes up: "outage s = None"
  shows "resetPassword cfg now tok pw s =
     (case jwt_verify now tok (secret cfg) of
        Inl e \<Rightarrow> (Inl (ApiError UNAUTHORIZED ''Password reset failed''), s)
      | Inr p \<Rightarrow>
          (case find (\<lambda>r. token r = tok \<and> type_t r = RESET_PASSWORD \<and> user_id r = sub p \<and>
                          blacklisted r = False) (tokens s) of
             None \<Rightarrow> (Inl (ApiError UNAUTHORIZED ''Password reset failed''), s)
           | Some r \<Rightarrow>
               (case find (\<lambda>u. id_u u = sub p) (users s) of
                  None \<Rightarrow> (Inl (ApiError UNAUTHORIZED ''Password reset failed''), s)
                | Some u \<Rightarrow>
                    (Inr (),
                     s\<lparr>users := map (\<lambda>u. if id_u u = sub p
                                          then u\<lparr>password := encryptPassword pw\<rparr> else u)
                                   (users s),
                       tokens := filter (\<lambda>x. \<not> (user_id x = sub p \<and> type_t x = RESET_PASSWORD))
                                   (tokens s)\<rparr>))))"
proof (cases "jwt_verify now tok (secret cfg)")
  case (Inl e)
  then show ?thesis
    using up by (simp add: resetPassword_def verifyToken_up throw_def)
next
  case (Inr p)
  note jwt = this
  let ?P = "\<lambda>r. token r = tok \<and> type_t r = RESET_PASSWORD \<and> user_id r = sub p \<and>
                 blacklisted r = False"
  show ?thesis
  proof (cases "find ?P (tokens s)")
    case None
    then show ?thesis
      using up jwt by (simp add: resetPassword_def verifyToken_up throw_def)
  next
    case (Some r)
    then have owner: "user_id r = sub p"
      by (auto simp: find_Some_iff)
    show ?thesis
    proof (cases "find (\<lambda>u. id_u u = sub p) (users s)")
      case None
      then show ?thesis
        using up jwt Some owner
        by (simp add: resetPassword_def verifyToken_up getUserById_def users_where_first_up
            throw_def)
    next
      case found: (Some u)
      have key: "id_u u = sub p"
        using found by (rule find_by_id_key)
      show ?thesis
        using up jwt Some owner found key
        by (simp add: resetPassword_def verifyToken_up getUserById_def users_where_first_up
            updateUserById_up tokens_where_del_up apply_patch_def)
    qed
  qed
qed

text \<open>
  C2. While the store answers: when \<open>resetPassword\<close> succeeds with a token whose subject
  is the user \<open>U\<close>, the password of \<open>U\<close> has become the hash of the new password, no other
  user row has changed, and the ledger has lost every RESET_PASSWORD row of \<open>U\<close> and no
  other row. In the database it leaves, \<open>resetPassword\<close> with any token signed for \<open>U\<close>
  (under any key, at any time, with any new password) rejects with
  \<open>ApiError 401 'Password reset failed'\<close>.
\<close>

theorem resetPassword_consumes_all_reset_tokens:
  assumes up: "outage s = None"
    and ok: "resetPassword cfg now tok pw s = (Inr (), s')"
  shows "\<exists>p. jwt_verify now tok (secret cfg) = Inr p \<and>
           (\<exists>u \<in> set (users s). id_u u = sub p) \<and>
           users s' = map (\<lambda>u. if id_u u = sub p then u\<lparr>password := encryptPassword pw\<rparr> else u)
                        (users s) \<and>
           tokens s' = filter (\<lambda>x. \<not> (user_id x = sub p \<and> type_t x = RESET_PASSWORD))
                         (tokens s) \<and>
           (\<forall>now' pw' p' k. sub p' = sub p \<longrightarrow>
              resetPassword cfg now' (Signed p' k) pw' s' =
                (Inl (ApiError UNAUTHORIZED ''Password reset failed''), s'))"
proof (cases "jwt_verify now tok (secret cfg)")
  case (Inl e)
  with up ok show ?thesis
    by (simp add: resetPassword_up)
next
  case (Inr p)
  note jwt = this
  let ?P = "\<lambda>r. token r = tok \<and> type_t r = RESET_PASSWORD \<and> user_id r = sub p \<and>
                 blacklisted r = False"
  from up ok jwt obtain r where row: "find ?P (tokens s) = Some r"
    by (cases "find ?P (tokens s)") (simp_all add: resetPassword_up)
  from up ok jwt row obtain u where user: "find (\<lambda>u. id_u u = sub p) (users s) = Some u"
    by (cases "find (\<lambda>u. id_u u = sub p) (users s)") (simp_all add: resetPassword_up)
  have s': "s' = s\<lparr>users := map (\<lambda>u. if id_u u = sub p
                                       then u\<lparr>password := encryptPassword pw\<rparr> else u) (users s),
                    tokens := filter (\<lambda>x. \<not> (user_id x = sub p \<and> type_t x = RESET_PASSWORD))
                                (tokens s)\<rparr>"
    using up ok jwt row user by (simp add: resetPassword_up)
  have up': "outage s' = None"
    using up by (simp add: s')
  have member: "\<exists>u \<in> set (users s). id_u u = sub p"
    using user by (auto simp: find_Some_iff)
  have later: "resetPassword cfg now' (Signed p' k) pw' s' =
                 (Inl (ApiError UNAUTHORIZED ''Password reset failed''), s')"
    if same: "sub p' = sub p" for now' pw' p' k
  proof (cases "jwt_verify now' (Signed p' k) (secret cfg)")
    case (Inl e)
    then show ?thesis
      using up' by (simp add: resetPassword_up)
  next
    case (Inr q)
    then have q: "q = p'"
      by (simp add: jwt_verify_def split: if_splits)
    have "find (\<lambda>r. token r = Signed p' k \<and> type_t r = RESET_PASSWORD \<and> user_id r = sub q \<and>
                     blacklisted r = False) (tokens s') = None"
      by (simp add: find_None_iff s' q same)
    with Inr show ?thesis
      using up' by (simp add: resetPassword_up)
  qed
  from jwt member later show ?thesis
    by (simp add: s')
qed

lemma db_two_resets_eq:
  "db_two_resets =
     \<lparr>users = [alice],
      tokens = [\<lparr>id_t = 1, token = generateToken 1000 1 1801000 RESET_PASSWORD ''k'',
                 type_t = RESET_PASSWORD, expires = 1801000, blacklisted = False,
                 created_at = 1000, user_id = 1\<rparr>,
                \<lparr>id_t = 2, token = generateToken 5000 1 1805000 RESET_PASSWORD ''k'',
                 type_t = RESET_PASSWORD, expires = 1805000, blacklisted = False,
                 created_at = 5000, user_id = 1\<rparr>],
      tokens_seq = 3, outage = None\<rparr>"
  by (simp add: db_two_resets_def generateResetPasswordToken_def getUserByEmail_def
      users_where_first_up saveToken_def tokens_insert_up resolve_def Let_def
      db_ex_def alice_def cfg_ex_def add_minutes_def)

theorem resetPassword_consumes_all_reset_tokens_witness:
  "resetPassword cfg_ex 60000 (generateToken 1000 1 1801000 RESET_PASSWORD ''k'') ''newpass1''
     db_two_resets =
     (Inr (), db_ex\<lparr>users := [alice\<lparr>password := encryptPassword ''newpass1''\<rparr>],
                   tokens_seq := 3\<rparr>) \<and>
   resetPassword cfg_ex 61000 (generateToken 5000 1 1805000 RESET_PASSWORD ''k'') ''newpass2''
     (db_ex\<lparr>users := [alice\<lparr>password := encryptPassword ''newpass1''\<rparr>], tokens_seq := 3\<rparr>) =
     (Inl (ApiError UNAUTHORIZED ''Password reset failed''),
      db_ex\<lparr>users := [alice\<lparr>password := encryptPassword ''newpass1''\<rparr>], tokens_seq := 3\<rparr>)"
proof -
  let ?t1 = "generateToken 1000 1 1801000 RESET_PASSWORD ''k''"
  let ?p2 = "\<lparr>sub = 1, iat = 5, exp = 1805, type_p = RESET_PASSWORD\<rparr>"
  let ?s' = "db_ex\<lparr>users := [alice\<lparr>password := encryptPassword ''newpass1''\<rparr>],
                   tokens_seq := 3\<rparr>"
  have up: "outage db_two_resets = None"
    by (simp add: db_two_resets_eq)
  have jwt: "jwt_verify 60000 ?t1 (secret cfg_ex) =
               Inr \<lparr>sub = 1, iat = 1, exp = 1801, type_p = RESET_PASSWORD\<rparr>"
    by (simp add: jwt_verify_def generateToken_def jwt_sign_def cfg_ex_def unix_def)
  have ok: "resetPassword cfg_ex 60000 ?t1 ''newpass1'' db_two_resets = (Inr (), ?s')"
    unfolding resetPassword_up [OF up] jwt
    by (simp add: db_two_resets_eq db_ex_def alice_def generateToken_def jwt_sign_def unix_def)
  have t2: "generateToken 5000 1 1805000 RESET_PASSWORD ''k'' = Signed ?p2 ''k''"
    by (simp add: generateToken_def jwt_sign_def unix_def)
  from resetPassword_consumes_all_reset_tokens [OF up ok] jwt
  have "\<forall>now' pw' p' k. sub p' = 1 \<longrightarrow>
          resetPassword cfg_ex now' (Signed p' k) pw' ?s' =
            (Inl (ApiError UNAUTHORIZED ''Password reset failed''), ?s')"
    by auto
  then have "resetPassword cfg_ex 61000 (Signed ?p2 ''k'') ''newpass2'' ?s' =
               (Inl (ApiError UNAUTHORIZED ''Password reset failed''), ?s')"
    by simp
  with ok t2 show ?thesis
    by simp
qed

section \<open>Signing and verifying\<close>

text \<open>
  C3. Times compare in Unix seconds (spec 4.1). When the second of the current time is
  before the second of the expiry, \<open>jwt.verify\<close> of the token that \<open>generateToken\<close>
  signed returns the claim set that was signed: the same subject, issue time, expiry and
  type. While the store answers and the ledger holds a row, not blacklisted, for that token,
  type and subject, \<open>verifyToken\<close> succeeds too, leaves the database as it was, and
  returns such a row: it carries the token, the subject as its owner, and the type.
\<close>

theorem verify_recovers_signed_claims:
  assumes "unix now < unix ex"
  shows "jwt_verify now (generateToken t0 userId ex ty (secret cfg)) (secret cfg) =
           Inr \<lparr>sub = userId, iat = unix t0, exp = unix ex, type_p = ty\<rparr> \<and>
         (\<forall>s r. outage s = None \<and> r \<in> set (tokens s) \<and>
                token r = generateToken t0 userId ex ty (secret cfg) \<and>
                type_t r = ty \<and> user_id r = userId \<and> \<not> blacklisted r \<longrightarrow>
            (\<exists>r'. verifyToken cfg now (generateToken t0 userId ex ty (secret cfg)) ty s =
                     (Inr r', s) \<and>
                   r' \<in> set (tokens s) \<and>
                   token r' = generateToken t0 userId ex ty (secret cfg) \<and>
                   type_t r' = ty \<and> user_id r' = userId \<and> \<not> blacklisted r'))"
proof (intro conjI allI impI)
  show jwt: "jwt_verify now (generateToken t0 userId ex ty (secret cfg)) (secret cfg) =
               Inr \<lparr>sub = userId, iat = unix t0, exp = unix ex, type_p = ty\<rparr>"
    using assms by (simp add: jwt_verify_def generateToken_def jwt_sign_def)
  fix s :: db and r :: Token
  let ?tok = "generateToken t0 userId ex ty (secret cfg)"
  let ?P = "\<lambda>x. token x = ?tok \<and> type_t x = ty \<and> user_id x = userId \<and> blacklisted x = False"
  assume h: "outage s = None \<and> r \<in> set (tokens s) \<and> token r = ?tok \<and> type_t r = ty \<and>
             user_id r = userId \<and> \<not> blacklisted r"
  then have "r \<in> set (tokens s)" and "?P r"
    by simp_all
  then obtain r' where found: "find ?P (tokens s) = Some r'" and ok: "?P r'"
    and member: "r' \<in> set (tokens s)"
    using find_some_of_member [of r "tokens s" ?P] by blast
  have "verifyToken cfg now ?tok ty s = (Inr r', s)"
    using h found by (simp add: verifyToken_up jwt)
  with ok member
  show "\<exists>r'. verifyToken cfg now ?tok ty s = (Inr r', s) \<and> r' \<in> set (tokens s) \<and>
              token r' = ?tok \<and> type_t r' = ty \<and> user_id r' = userId \<and> \<not> blacklisted r'"
    by auto
qed

theorem verify_recovers_signed_claims_witness:
  "jwt_verify 2000 (generateToken 1000 1 1801000 RESET_PASSWORD ''k'') ''k'' =
     Inr \<lparr>sub = 1, iat = 1, exp = 1801, type_p = RESET_PASSWORD\<rparr> \<and>
   (\<exists>r'. verifyToken cfg_ex 2000 (generateToken 1000 1 1801000 RESET_PASSWORD ''k'')
            RESET_PASSWORD db_two_resets = (Inr r', db_two_resets) \<and>
          r' \<in> set (tokens db_two_resets) \<and> type_t r' = RESET_PASSWORD \<and> user_id r' = 1)"
proof -
  let ?tok = "generateToken 1000 1 1801000 RESET_PASSWORD ''k''"
  let ?r = "\<lparr>id_t = 1, token = ?tok, type_t = RESET_PASSWORD, expires = 1801000,
             blacklisted = False, created_at = 1000, user_id = 1\<rparr>"
  have fresh: "unix 2000 < unix 1801000"
    by (simp add: unix_def)
  have key: "secret cfg_ex = ''k''"
    by (simp add: cfg_ex_def)
  have vals: "unix 1000 = 1" "unix 1801000 = 1801"
    by (simp_all add: unix_def)
  have row: "outage db_two_resets = None \<and> ?r \<in> set (tokens db_two_resets) \<and>
             token ?r = ?tok \<and> type_t ?r = RESET_PASSWORD \<and> user_id ?r = 1 \<and> \<not> blacklisted ?r"
    by (simp add: db_two_resets_eq)
  note roundtrip = verify_recovers_signed_claims [OF fresh, of 1000 1 RESET_PASSWORD cfg_ex]
  from roundtrip have a: "jwt_verify 2000 ?tok ''k'' =
      Inr \<lparr>sub = 1, iat = 1, exp = 1801, type_p = RESET_PASSWORD\<rparr>"
    unfolding key vals by blast
  from roundtrip row have b: "\<exists>r'. verifyToken cfg_ex 2000 ?tok RESET_PASSWORD db_two_resets =
                              (Inr r', db_two_resets) \<and>
          r' \<in> set (tokens db_two_resets) \<and> type_t r' = RESET_PASSWORD \<and> user_id r' = 1"
    unfolding key by blast
  from a b show ?thesis
    by blast
qed

text \<open>
  C4. A token whose expiry claim is at or before the current time in Unix seconds fails
  verification whatever key signed it: \<open>jwt.verify\<close> rejects it and \<open>verifyToken\<close>
  rejects it, for every requested type and every database. For a token signed with the
  configured key the expiry is the only cause of failure in \<open>jwt.verify\<close>: it rejects
  with the expiry error exactly when the current second is at or past the expiry claim,
  the second of the expiry itself included, and returns the claim set exactly when the
  current second is before it.
\<close>

theorem expired_token_fails_verification:
  "(exp p \<le> unix now \<longrightarrow>
      (\<exists>e. jwt_verify now (Signed p k) (secret cfg) = Inl e) \<and>
      (\<exists>e. verifyToken cfg now (Signed p k) ty s = (Inl e, s))) \<and>
   (jwt_verify now (Signed p (secret cfg)) (secret cfg) = Inl TokenExpiredError) =
     (exp p \<le> unix now) \<and>
   (jwt_verify now (Signed p (secret cfg)) (secret cfg) = Inr p) = (unix now < exp p)"
  by (auto simp: jwt_verify_def verifyToken_def throw_def)

theorem expired_token_fails_verification_witness:
  "unix 1801000 = 1801 \<and>
   (\<exists>e. jwt_verify 1801000
           (Signed \<lparr>sub = 1, iat = 1, exp = 1801, type_p = RESET_PASSWORD\<rparr> ''k'')
           (secret cfg_ex) = Inl e) \<and>
   (\<exists>e. verifyToken cfg_ex 1801000
           (Signed \<lparr>sub = 1, iat = 1, exp = 1801, type_p = RESET_PASSWORD\<rparr> ''forged'')
           RESET_PASSWORD db_two_resets = (Inl e, db_two_resets))"
proof -
  let ?p = "\<lparr>sub = 1, iat = 1, exp = 1801, type_p = RESET_PASSWORD\<rparr>"
  have boundary: "unix 1801000 = 1801"
    by (simp add: unix_def)
  then have due: "exp ?p \<le> unix 1801000"
    by simp
  from expired_token_fails_verification [of ?p 1801000 "''k''" cfg_ex] due
  have a: "\<exists>e. jwt_verify 1801000 (Signed ?p ''k'') (secret cfg_ex) = Inl e"
    by blast
  from expired_token_fails_verification
         [of ?p 1801000 "''forged''" cfg_ex RESET_PASSWORD db_two_resets] due
  have b: "\<exists>e. verifyToken cfg_ex 1801000 (Signed ?p ''forged'') RESET_PASSWORD db_two_resets =
                  (Inl e, db_two_resets)"
    by blast
  from boundary a b show ?thesis
    by blast
qed

section \<open>Sessions: refresh and logout\<close>

lemma generateAuthTokens_up:
  "outage s = None \<Longrightarrow> list_ex (\<lambda>u. id_u u = userId) (users s) \<Longrightarrow>
   generateAuthTokens cfg tz now userId s =
     (Inr \<lparr>access =
             \<lparr>token_r = generateToken now userId
                          (add_minutes now (accessExpirationMinutes cfg)) ACCESS (secret cfg),
              expires_r = add_minutes now (accessExpirationMinutes cfg)\<rparr>,
           refresh =
             \<lparr>token_r = generateToken now userId
                          (add_days tz now (refreshExpirationDays cfg)) REFRESH (secret cfg),
              expires_r = add_days tz now (refreshExpirationDays cfg)\<rparr>\<rparr>,
      s\<lparr>tokens := tokens s @
           [\<lparr>id_t = tokens_seq s,
             token = generateToken now userId
                       (add_days tz now (refreshExpirationDays cfg)) REFRESH (secret cfg),
             type_t = REFRESH, expires = add_days tz now (refreshExpirationDays cfg),
             blacklisted = False, created_at = now, user_id = userId\<rparr>],
        tokens_seq := Suc (tokens_seq s)\<rparr>)"
  by (simp add: generateAuthTokens_def saveToken_def tokens_insert_up resolve_def Let_def)

lemma refreshAuth_up:
  assumes "outage s = None"
  shows "refreshAuth cfg tz now tok s =
     (case jwt_verify now tok (secret cfg) of
        Inl e \<Rightarrow> (Inl (ApiError UNAUTHORIZED ''Please authenticate''), s)
      | Inr p \<Rightarrow>
          (case find (\<lambda>r. token r = tok \<and> type_t r = REFRESH \<and> user_id r = sub p \<and>
                          blacklisted r = False) (tokens s) of
             None \<Rightarrow> (Inl (ApiError UNAUTHORIZED ''Please authenticate''), s)
           | Some r \<Rightarrow>
               generateAuthTokens cfg tz now (user_id r)
                 (s\<lparr>tokens := filter (\<lambda>x. id_t x \<noteq> id_t r) (tokens s)\<rparr>)))"
  using assms
  by (simp add: refreshAuth_def verifyToken_up tokens_where_del_up throw_def resolve_def
      split: sum.splits option.splits)

lemma logout_up:
  assumes "outage s = None"
  shows "logout tok s =
     (case find (\<lambda>r. token r = tok \<and> type_t r = REFRESH \<and> blacklisted r = False) (tokens s) of
        None \<Rightarrow> (Inl (ApiError NOT_FOUND ''Not found''), s)
      | Some r \<Rightarrow> (Inr (), s\<lparr>tokens := filter (\<lambda>x. id_t x \<noteq> id_t r) (tokens s)\<rparr>))"
  using assms
  by (simp add: logout_def tokens_where_first_up tokens_where_del_up throw_def
      split: option.splits)

subsection \<open>The example session\<close>

lemma refresh_ex_eq:
  "refresh_ex = Signed \<lparr>sub = 1, iat = 1, exp = 2592001, type_p = REFRESH\<rparr> ''k''"
  by (simp add: refresh_ex_def generateToken_def jwt_sign_def unix_def add_days_def utc_def)

lemma refresh_ex_verifies:
  "now < 2592001000 \<Longrightarrow>
   jwt_verify now refresh_ex (secret cfg_ex) =
     Inr \<lparr>sub = 1, iat = 1, exp = 2592001, type_p = REFRESH\<rparr>"
  by (simp add: refresh_ex_eq jwt_verify_def cfg_ex_def unix_def)

lemma db_session_eq:
  "db_session =
     \<lparr>users = [alice],
      tokens = [\<lparr>id_t = 1, token = refresh_ex, type_t = REFRESH, expires = 2592001000,
                 blacklisted = False, created_at = 1000, user_id = 1\<rparr>],
      tokens_seq = 2, outage = None\<rparr>"
  by (simp add: db_session_def generateAuthTokens_up alice_def db_ex_def cfg_ex_def add_days_def utc_def
      refresh_ex_def)

lemma refreshAuth_db_session:
  "refreshAuth cfg_ex utc 1500 refresh_ex db_session =
     (Inr \<lparr>access = \<lparr>token_r = generateToken 1500 1 1801500 ACCESS ''k'', expires_r = 1801500\<rparr>,
           refresh = \<lparr>token_r = refresh_ex, expires_r = 2592001500\<rparr>\<rparr>,
      \<lparr>users = [alice],
       tokens = [\<lparr>id_t = 2, token = refresh_ex, type_t = REFRESH, expires = 2592001500,
                  blacklisted = False, created_at = 1500, user_id = 1\<rparr>],
       tokens_seq = 3, outage = None\<rparr>)"
proof -
  have up: "outage db_session = None"
    by (simp add: db_session_eq)
  show ?thesis
    unfolding refreshAuth_up [OF up] refresh_ex_verifies [of 1500, simplified]
    by (simp add: db_session_eq generateAuthTokens_up alice_def)
       (simp add: cfg_ex_def add_days_def utc_def add_minutes_def refresh_ex_eq generateToken_def
          jwt_sign_def unix_def)
qed

lemma generateAuthTokens_db_ex:
  "generateAuthTokens cfg_ex utc 1000 1 db_ex =
     (Inr \<lparr>access = \<lparr>token_r = generateToken 1000 1 1801000 ACCESS ''k'', expires_r = 1801000\<rparr>,
           refresh = \<lparr>token_r = refresh_ex, expires_r = 2592001000\<rparr>\<rparr>,
      db_session)"
proof -
  have up: "outage db_ex = None" and known: "list_ex (\<lambda>u. id_u u = 1) (users db_ex)"
    by (simp_all add: db_ex_def alice_def)
  show ?thesis
    unfolding generateAuthTokens_up [OF up known] db_session_eq
    by (simp add: db_ex_def cfg_ex_def add_days_def utc_def add_minutes_def refresh_ex_def)
qed

lemma db_refreshed_eq:
  "db_refreshed =
     \<lparr>users = [alice],
      tokens = [\<lparr>id_t = 2, token = refresh_ex, type_t = REFRESH, expires = 2592001500,
                 blacklisted = False, created_at = 1500, user_id = 1\<rparr>],
      tokens_seq = 3, outage = None\<rparr>"
  by (simp add: db_refreshed_def refreshAuth_db_session)

lemma db_two_sessions_eq:
  "db_two_sessions =
     \<lparr>users = [alice],
      tokens = [\<lparr>id_t = 1, token = refresh_ex, type_t = REFRESH, expires = 2592001000,
                 blacklisted = False, created_at = 1000, user_id = 1\<rparr>,
                \<lparr>id_t = 2, token = refresh_ex, type_t = REFRESH, expires = 2592001200,
                 blacklisted = False, created_at = 1200, user_id = 1\<rparr>],
      tokens_seq = 3, outage = None\<rparr>"
  by (simp add: db_two_sessions_def db_session_eq generateAuthTokens_up alice_def)
     (simp add: cfg_ex_def add_days_def utc_def refresh_ex_eq generateToken_def jwt_sign_def unix_def)

lemma generateAuthTokens_db_session:
  "generateAuthTokens cfg_ex utc 1200 1 db_session =
     (Inr \<lparr>access = \<lparr>token_r = generateToken 1200 1 1801200 ACCESS ''k'', expires_r = 1801200\<rparr>,
           refresh = \<lparr>token_r = refresh_ex, expires_r = 2592001200\<rparr>\<rparr>,
      db_two_sessions)"
proof -
  have up: "outage db_session = None" and known: "list_ex (\<lambda>u. id_u u = 1) (users db_session)"
    by (simp_all add: db_session_eq alice_def)
  show ?thesis
    unfolding generateAuthTokens_up [OF up known] db_two_sessions_eq
    by (simp add: db_session_eq cfg_ex_def add_days_def utc_def add_minutes_def refresh_ex_eq
        generateToken_def jwt_sign_def unix_def)
qed

lemma db_logged_out_eq:
  "db_logged_out =
     \<lparr>users = [alice],
      tokens = [\<lparr>id_t = 2, token = refresh_ex, type_t = REFRESH, expires = 2592001200,
                 blacklisted = False, created_at = 1200, user_id = 1\<rparr>],
      tokens_seq = 3, outage = None\<rparr>"
proof -
  have up: "outage db_two_sessions = None"
    by (simp add: db_two_sessions_eq)
  show ?thesis
    unfolding db_logged_out_def logout_up [OF up]
    by (simp add: db_two_sessions_eq)
qed

subsection \<open>When a token is the only one of its kind\<close>

text \<open>
  While the store answers: when no ledger row but the one consumed holds the token, its
  owner is in the users table, and the refresh token that \<open>refreshAuth\<close> signs is
  another token, the refresh succeeds and a
  second \<open>refreshAuth\<close> with the old token rejects with \<open>ApiError 401\<close>.
\<close>

lemma second_refresh_rejected_when_token_replaced:
  assumes up: "outage s = None"
    and jwt: "jwt_verify now tok (secret cfg) = Inr p"
    and row: "find (\<lambda>r. token r = tok \<and> type_t r = REFRESH \<and> user_id r = sub p \<and>
                        blacklisted r = False) (tokens s) = Some r"
    and single: "\<forall>x \<in> set (tokens s). token x = tok \<longrightarrow> id_t x = id_t r"
    and fresh: "generateToken now (sub p) (add_days tz now (refreshExpirationDays cfg)) REFRESH
                  (secret cfg) \<noteq> tok"
    and known: "list_ex (\<lambda>u. id_u u = sub p) (users s)"
  shows "(\<exists>resp. fst (refreshAuth cfg tz now tok s) = Inr resp) \<and>
         refreshAuth cfg tz now' tok (snd (refreshAuth cfg tz now tok s)) =
           (Inl (ApiError UNAUTHORIZED ''Please authenticate''), snd (refreshAuth cfg tz now tok s))"
proof -
  let ?new = "generateToken now (sub p) (add_days tz now (refreshExpirationDays cfg)) REFRESH
                (secret cfg)"
  let ?s0 = "s\<lparr>tokens := filter (\<lambda>x. id_t x \<noteq> id_t r) (tokens s)\<rparr>"
  have owner: "user_id r = sub p"
    using row by (auto simp: find_Some_iff)
  have up0: "outage ?s0 = None"
    using up by simp
  have first: "refreshAuth cfg tz now tok s = generateAuthTokens cfg tz now (sub p) ?s0"
    using jwt row owner by (simp add: refreshAuth_up [OF up])
  obtain resp s1 where run: "generateAuthTokens cfg tz now (sub p) ?s0 = (Inr resp, s1)"
    and s1: "tokens s1 = filter (\<lambda>x. id_t x \<noteq> id_t r) (tokens s) @
               [\<lparr>id_t = tokens_seq s, token = ?new, type_t = REFRESH,
                 expires = add_days tz now (refreshExpirationDays cfg), blacklisted = False,
                 created_at = now, user_id = sub p\<rparr>]"
    and up1: "outage s1 = None"
    using up known by (simp add: generateAuthTokens_up [OF up0])
  have gone: "\<forall>x \<in> set (tokens s1). token x \<noteq> tok"
    using single fresh by (auto simp: s1)
  have "refreshAuth cfg tz now' tok s1 = (Inl (ApiError UNAUTHORIZED ''Please authenticate''), s1)"
  proof (cases "jwt_verify now' tok (secret cfg)")
    case (Inl e)
    then show ?thesis
      by (simp add: refreshAuth_up [OF up1])
  next
    case (Inr q)
    have "find (\<lambda>r. token r = tok \<and> type_t r = REFRESH \<and> user_id r = sub q \<and>
                     blacklisted r = False) (tokens s1) = None"
      using gone by (auto simp: find_None_iff)
    with Inr show ?thesis
      by (simp add: refreshAuth_up [OF up1])
  qed
  with first run show ?thesis
    by simp
qed

text \<open>
  While the store answers: when no ledger row but the one found holds the token, \<open>logout\<close>
  succeeds and a \<open>refreshAuth\<close> with the token then rejects with \<open>ApiError 401\<close>.
\<close>

lemma refresh_rejected_after_logout_of_only_row:
  assumes up: "outage s = None"
    and row: "find (\<lambda>r. token r = tok \<and> type_t r = REFRESH \<and> blacklisted r = False)
                (tokens s) = Some r"
    and single: "\<forall>x \<in> set (tokens s). token x = tok \<longrightarrow> id_t x = id_t r"
  shows "fst (logout tok s) = Inr () \<and>
         refreshAuth cfg tz now tok (snd (logout tok s)) =
           (Inl (ApiError UNAUTHORIZED ''Please authenticate''), snd (logout tok s))"
proof -
  let ?s1 = "s\<lparr>tokens := filter (\<lambda>x. id_t x \<noteq> id_t r) (tokens s)\<rparr>"
  have out: "logout tok s = (Inr (), ?s1)"
    using row by (simp add: logout_up [OF up])
  have up1: "outage ?s1 = None"
    using up by simp
  have gone: "\<forall>x \<in> set (tokens ?s1). token x \<noteq> tok"
    using single by auto
  have "refreshAuth cfg tz now tok ?s1 = (Inl (ApiError UNAUTHORIZED ''Please authenticate''), ?s1)"
  proof (cases "jwt_verify now tok (secret cfg)")
    case (Inl e)
    then show ?thesis
      by (simp add: refreshAuth_up [OF up1])
  next
    case (Inr q)
    have "find (\<lambda>r. token r = tok \<and> type_t r = REFRESH \<and> user_id r = sub q \<and>
                     blacklisted r = False) (tokens ?s1) = None"
      using gone by (auto simp: find_None_iff)
    with Inr show ?thesis
      by (simp add: refreshAuth_up [OF up1])
  qed
  with out show ?thesis
    by simp
qed

subsection \<open>When a token is signed twice in one second\<close>

text \<open>
  C1. The claim is that a refresh token is single-use: after \<open>refreshAuth\<close> has succeeded
  with it, a second \<open>refreshAuth\<close> with it rejects. The code does otherwise when the
  token is refreshed in the second it was issued in. The user with id 1 is issued the token
  \<open>refresh_ex\<close> at 1000 ms. \<open>refreshAuth\<close> with it at 1500 ms succeeds, deletes its row
  and signs a replacement over the same subject, issue second, expiry second and type: the
  replacement is \<open>refresh_ex\<close> itself, saved in a new row. \<open>refreshAuth\<close> with
  \<open>refresh_ex\<close> at 1700 ms succeeds again.
\<close>

theorem refresh_token_accepted_twice:
  "(\<exists>resp. generateAuthTokens cfg_ex utc 1000 1 db_ex = (Inr resp, db_session) \<and>
           token_r (refresh resp) = refresh_ex) \<and>
   (\<exists>resp. refreshAuth cfg_ex utc 1500 refresh_ex db_session = (Inr resp, db_refreshed) \<and>
           token_r (refresh resp) = refresh_ex) \<and>
   (\<exists>resp s'. refreshAuth cfg_ex utc 1700 refresh_ex db_refreshed = (Inr resp, s'))"
proof (intro conjI)
  show "\<exists>resp. generateAuthTokens cfg_ex utc 1000 1 db_ex = (Inr resp, db_session) \<and>
           token_r (refresh resp) = refresh_ex"
    unfolding generateAuthTokens_db_ex by simp
  show "\<exists>resp. refreshAuth cfg_ex utc 1500 refresh_ex db_session = (Inr resp, db_refreshed) \<and>
           token_r (refresh resp) = refresh_ex"
    by (simp add: refreshAuth_db_session db_refreshed_eq)
  have up': "outage db_refreshed = None"
    by (simp add: db_refreshed_eq)
  show "\<exists>resp s'. refreshAuth cfg_ex utc 1700 refresh_ex db_refreshed = (Inr resp, s')"
    unfolding refreshAuth_up [OF up'] refresh_ex_verifies [of 1700, simplified]
    by (simp add: db_refreshed_eq generateAuthTokens_up alice_def)
qed

text \<open>
  C6. The claim is that after a successful \<open>logout\<close> with a refresh token,
  \<open>refreshAuth\<close> with it rejects. The code does otherwise when the ledger holds the token
  in two rows. The user with id 1 is issued tokens at 1000 ms and again at 1200 ms: both
  refresh tokens are \<open>refresh_ex\<close>, in two rows. \<open>logout\<close> with \<open>refresh_ex\<close> succeeds
  and deletes the first row by its id; \<open>refreshAuth\<close> with \<open>refresh_ex\<close> at 1700 ms
  finds the second row and succeeds.
\<close>

theorem logout_leaves_refresh_token_usable:
  "(\<exists>resp. generateAuthTokens cfg_ex utc 1200 1 db_session = (Inr resp, db_two_sessions) \<and>
           token_r (refresh resp) = refresh_ex) \<and>
   logout refresh_ex db_two_sessions = (Inr (), db_logged_out) \<and>
   (\<exists>resp s'. refreshAuth cfg_ex utc 1700 refresh_ex db_logged_out = (Inr resp, s'))"
proof (intro conjI)
  show "\<exists>resp. generateAuthTokens cfg_ex utc 1200 1 db_session = (Inr resp, db_two_sessions) \<and>
           token_r (refresh resp) = refresh_ex"
    unfolding generateAuthTokens_db_session by simp
  have up2: "outage db_two_sessions = None"
    by (simp add: db_two_sessions_eq)
  show "logout refresh_ex db_two_sessions = (Inr (), db_logged_out)"
    unfolding logout_up [OF up2]
    by (simp add: db_two_sessions_eq db_logged_out_eq)
  have up3: "outage db_logged_out = None"
    by (simp add: db_logged_out_eq)
  show "\<exists>resp s'. refreshAuth cfg_ex utc 1700 refresh_ex db_logged_out = (Inr resp, s')"
    unfolding refreshAuth_up [OF up3] refresh_ex_verifies [of 1700, simplified]
    by (simp add: db_logged_out_eq generateAuthTokens_up alice_def)
qed

section \<open>Store failures\<close>

lemma caught_outcomes:
  "fst (try_catch r (\<lambda>_ s'. throw e s')) = Inl e \<or>
   (\<exists>v. fst r = Inr v \<and> fst (try_catch r (\<lambda>_ s'. throw e s')) = Inr v)"
  by (cases r) (auto simp: try_catch_def throw_def split: sum.splits)

subsection \<open>How many queries a success takes\<close>

lemma await_Inr_elim:
  assumes "await r k = (Inr v, s')"
  obtains x s1 where "r = (Inr x, s1)" and "k x s1 = (Inr v, s')"
  using assms by (cases r; cases "fst r") (auto simp: await_def)

lemma spent_trans: "spent a s s1 \<Longrightarrow> spent b s1 s2 \<Longrightarrow> c = a + b \<Longrightarrow> spent c s s2"
  by (auto simp: spent_def split: option.splits)

lemma spent_query: "query s = (Inr u, s') \<Longrightarrow> spent 1 s s'"
  by (auto simp: query_def spent_def split: option.splits nat.splits)

lemma spent_tokens_where_first: "tokens_where_first P s = (Inr v, s') \<Longrightarrow> spent 1 s s'"
  unfolding tokens_where_first_def by (erule await_Inr_elim) (auto dest: spent_query)

lemma spent_tokens_where_del: "tokens_where_del P s = (Inr v, s') \<Longrightarrow> spent 1 s s'"
  unfolding tokens_where_del_def
  by (erule await_Inr_elim) (auto dest!: spent_query simp: spent_def split: option.splits)

lemma spent_users_where_first: "users_where_first P s = (Inr v, s') \<Longrightarrow> spent 1 s s'"
  unfolding users_where_first_def by (erule await_Inr_elim) (auto dest: spent_query)

lemma spent_users_where_update: "users_where_update P b s = (Inr v, s') \<Longrightarrow> spent 1 s s'"
  unfolding users_where_update_def
  by (erule await_Inr_elim) (auto dest!: spent_query simp: spent_def split: option.splits)

lemma spent_verifyToken: "verifyToken cfg now tok ty s = (Inr d, s') \<Longrightarrow> spent 1 s s'"
  unfolding verifyToken_def
  by (auto simp: throw_def resolve_def split: sum.splits option.splits
      elim!: await_Inr_elim dest: spent_tokens_where_first)

lemma spent_updateUserById:
  assumes "updateUserById i b s = (Inr v, s')" and "email_b b = None"
  shows "spent 2 s s'"
proof -
  from assms(1) obtain user s1 where first: "getUserById i s = (Inr user, s1)"
    and rest: "(case user of
                  None \<Rightarrow> throw (ApiError NOT_FOUND ''User not found'') s1
                | Some _ \<Rightarrow>
                    (case email_b b of
                       None \<Rightarrow> update_row i b s1
                     | Some e \<Rightarrow>
                         if e = [] then update_row i b s1
                         else await (getUserByEmail e s1) (\<lambda>taken s2.
                           case taken of
                             Some _ \<Rightarrow> throw (ApiError BAD_REQUEST ''Email already taken'') s2
                           | None \<Rightarrow> update_row i b s2))) = (Inr v, s')"
    unfolding updateUserById_def by (rule await_Inr_elim)
  from first have a: "spent 1 s s1"
    unfolding getUserById_def by (rule spent_users_where_first)
  from rest assms(2) have "update_row i b s1 = (Inr v, s')"
    by (cases user) (simp_all add: throw_def)
  then have b: "spent 1 s1 s'"
    unfolding update_row_def by (auto elim!: await_Inr_elim dest: spent_users_where_update)
  show ?thesis
    by (rule spent_trans [OF a b]) simp
qed

lemma spent_resetPassword:
  assumes "resetPassword cfg now tok pw s = (Inr v, s')"
  shows "spent 5 s s'"
proof -
  let ?patch = "\<lparr>email_b = None, name_b = None, password_b = Some (encryptPassword pw),
                 role_b = None, is_email_verified_b = None\<rparr>"
  let ?body = "await (verifyToken cfg now tok RESET_PASSWORD s) (\<lambda>d s1.
                 await (getUserById (user_id d) s1) (\<lambda>user s2.
                   case user of
                     None \<Rightarrow> throw (Error []) s2
                   | Some u \<Rightarrow>
                       await (updateUserById (id_u u) ?patch s2)
                         (\<lambda>_ s3. tokens_where_del (\<lambda>x. user_id x = id_u u \<and>
                                                    type_t x = RESET_PASSWORD) s3)))"
  from assms have body: "?body = (Inr v, s')"
    unfolding resetPassword_def
    by (cases ?body; cases "fst ?body") (auto simp: try_catch_def throw_def)
  from body obtain d s1 where v: "verifyToken cfg now tok RESET_PASSWORD s = (Inr d, s1)"
    and r1: "await (getUserById (user_id d) s1) (\<lambda>user s2.
               case user of
                 None \<Rightarrow> throw (Error []) s2
               | Some u \<Rightarrow>
                   await (updateUserById (id_u u) ?patch s2)
                     (\<lambda>_ s3. tokens_where_del (\<lambda>x. user_id x = id_u u \<and>
                                                type_t x = RESET_PASSWORD) s3)) = (Inr v, s')"
    by (rule await_Inr_elim)
  from r1 obtain user s2 where g: "getUserById (user_id d) s1 = (Inr user, s2)"
    and r2: "(case user of
                None \<Rightarrow> throw (Error []) s2
              | Some u \<Rightarrow>
                  await (updateUserById (id_u u) ?patch s2)
                    (\<lambda>_ s3. tokens_where_del (\<lambda>x. user_id x = id_u u \<and>
                                               type_t x = RESET_PASSWORD) s3)) = (Inr v, s')"
    by (rule await_Inr_elim)
  from r2 obtain u :: User where r3: "await (updateUserById (id_u u) ?patch s2)
                    (\<lambda>_ s3. tokens_where_del (\<lambda>x. user_id x = id_u u \<and>
                                               type_t x = RESET_PASSWORD) s3) = (Inr v, s')"
    by (cases user) (auto simp: throw_def)
  from r3 obtain w s3 where upd: "updateUserById (id_u u) ?patch s2 = (Inr w, s3)"
    and del: "tokens_where_del (\<lambda>x. user_id x = id_u u \<and> type_t x = RESET_PASSWORD) s3 =
                (Inr v, s')"
    by (rule await_Inr_elim)
  have a: "spent 1 s s1"
    using v by (rule spent_verifyToken)
  have b: "spent 1 s1 s2"
    using g unfolding getUserById_def by (rule spent_users_where_first)
  have c: "spent 2 s2 s3"
    using upd by (rule spent_updateUserById) simp
  have d: "spent 1 s3 s'"
    using del by (rule spent_tokens_where_del)
  have ab: "spent 2 s s2"
    by (rule spent_trans [OF a b]) simp
  have abc: "spent 4 s s3"
    by (rule spent_trans [OF ab c]) simp
  show ?thesis
    by (rule spent_trans [OF abc d]) simp
qed

lemma spent_verifyEmail:
  assumes "verifyEmail cfg now tok s = (Inr v, s')"
  shows "spent 4 s s'"
proof -
  let ?patch = "\<lparr>email_b = None, name_b = None, password_b = None,
                 role_b = None, is_email_verified_b = Some True\<rparr>"
  let ?body = "await (verifyToken cfg now tok VERIFY_EMAIL s) (\<lambda>d s1.
                 await (tokens_where_del (\<lambda>x. user_id x = user_id d \<and>
                                             type_t x = VERIFY_EMAIL) s1)
                   (\<lambda>_ s2. await (updateUserById (user_id d) ?patch s2)
                      (\<lambda>_ s3. resolve () s3)))"
  from assms have body: "?body = (Inr v, s')"
    unfolding verifyEmail_def
    by (cases ?body; cases "fst ?body") (auto simp: try_catch_def throw_def)
  from body obtain d s1 where v: "verifyToken cfg now tok VERIFY_EMAIL s = (Inr d, s1)"
    and r1: "await (tokens_where_del (\<lambda>x. user_id x = user_id d \<and>
                                        type_t x = VERIFY_EMAIL) s1)
               (\<lambda>_ s2. await (updateUserById (user_id d) ?patch s2)
                  (\<lambda>_ s3. resolve () s3)) = (Inr v, s')"
    by (rule await_Inr_elim)
  from r1 obtain w s2 where del: "tokens_where_del (\<lambda>x. user_id x = user_id d \<and>
                                      type_t x = VERIFY_EMAIL) s1 = (Inr w, s2)"
    and r2: "await (updateUserById (user_id d) ?patch s2) (\<lambda>_ s3. resolve () s3) =
               (Inr v, s')"
    by (rule await_Inr_elim)
  from r2 obtain w' s3 where upd: "updateUserById (user_id d) ?patch s2 = (Inr w', s3)"
    and fin: "resolve () s3 = (Inr v, s')"
    by (rule await_Inr_elim)
  from fin have same: "s3 = s'"
    by (simp add: resolve_def)
  have a: "spent 1 s s1"
    using v by (rule spent_verifyToken)
  have b: "spent 1 s1 s2"
    using del by (rule spent_tokens_where_del)
  have c: "spent 2 s2 s'"
    using upd unfolding same by (rule spent_updateUserById) simp
  have ab: "spent 2 s s2"
    by (rule spent_trans [OF a b]) simp
  show ?thesis
    by (rule spent_trans [OF ab c]) simp
qed

lemma spent_more: "spent k s s' \<Longrightarrow> outage s = Some n \<Longrightarrow> k \<le> n"
  by (simp add: spent_def)

lemma caught_needs_queries:
  assumes caught: "fst res = Inl e \<or> (\<exists>v. fst res = Inr v)"
    and needs: "\<And>v s'. res = (Inr v, s') \<Longrightarrow> spent k s s'"
    and short: "outage s = Some n" "n < k"
  shows "fst res = Inl e"
proof (rule ccontr)
  assume "fst res \<noteq> Inl e"
  with caught obtain v where "fst res = Inr v"
    by blast
  then have "res = (Inr v, snd res)"
    by (cases res) simp
  then have "spent k s (snd res)"
    by (rule needs)
  with short show False
    by (simp add: spent_def)
qed

subsection \<open>What the catch blocks do with a store failure\<close>

text \<open>
  C7, as the claim states it, fails: with a token that is valid and in the ledger, and a
  store whose first query fails, \<open>refreshAuth\<close>, \<open>resetPassword\<close> and \<open>verifyEmail\<close>
  reject with their own \<open>ApiError 401\<close>, not with the store's error.
\<close>

theorem store_failure_remapped_counterexample:
  "(\<exists>resp s'. refreshAuth cfg_ex utc 1500 refresh_ex db_session = (Inr resp, s')) \<and>
   fst (query (db_session\<lparr>outage := Some 0\<rparr>)) = Inl StoreError \<and>
   fst (refreshAuth cfg_ex utc 1500 refresh_ex (db_session\<lparr>outage := Some 0\<rparr>)) =
     Inl (ApiError UNAUTHORIZED ''Please authenticate'') \<and>
   fst (refreshAuth cfg_ex utc 1500 refresh_ex (db_session\<lparr>outage := Some 0\<rparr>)) \<noteq>
     Inl StoreError \<and>
   fst (resetPassword cfg_ex 2000 (generateToken 1000 1 1801000 RESET_PASSWORD ''k'')
          ''newpass1'' (db_two_resets\<lparr>outage := Some 0\<rparr>)) =
     Inl (ApiError UNAUTHORIZED ''Password reset failed'') \<and>
   fst (verifyEmail cfg_ex 2000 verify_ex (db_verify\<lparr>outage := Some 0\<rparr>)) =
     Inl (ApiError UNAUTHORIZED ''Email verification failed'')"
proof (intro conjI)
  show "\<exists>resp s'. refreshAuth cfg_ex utc 1500 refresh_ex db_session = (Inr resp, s')"
    by (simp add: refreshAuth_db_session)
  show "fst (query (db_session\<lparr>outage := Some 0\<rparr>)) = Inl StoreError"
    by (simp add: query_def)
  have jwt: "jwt_verify 1500 refresh_ex (secret cfg_ex) =
               Inr \<lparr>sub = 1, iat = 1, exp = 2592001, type_p = REFRESH\<rparr>"
    by (simp add: refresh_ex_verifies)
  show r: "fst (refreshAuth cfg_ex utc 1500 refresh_ex (db_session\<lparr>outage := Some 0\<rparr>)) =
     Inl (ApiError UNAUTHORIZED ''Please authenticate'')"
    by (simp add: refreshAuth_def verifyToken_def jwt tokens_where_first_def query_def throw_def)
  show "fst (refreshAuth cfg_ex utc 1500 refresh_ex (db_session\<lparr>outage := Some 0\<rparr>)) \<noteq>
          Inl StoreError"
    by (simp add: r)
  have jwt2: "jwt_verify 2000 (generateToken 1000 1 1801000 RESET_PASSWORD ''k'')
                (secret cfg_ex) =
              Inr \<lparr>sub = 1, iat = 1, exp = 1801, type_p = RESET_PASSWORD\<rparr>"
    by (simp add: jwt_verify_def generateToken_def jwt_sign_def cfg_ex_def unix_def)
  show "fst (resetPassword cfg_ex 2000 (generateToken 1000 1 1801000 RESET_PASSWORD ''k'')
               ''newpass1'' (db_two_resets\<lparr>outage := Some 0\<rparr>)) =
          Inl (ApiError UNAUTHORIZED ''Password reset failed'')"
    unfolding resetPassword_def verifyToken_def jwt2
    by (simp add: tokens_where_first_def query_def throw_def)
  have jwt3: "jwt_verify 2000 verify_ex (secret cfg_ex) =
              Inr \<lparr>sub = 1, iat = 1, exp = 1801, type_p = VERIFY_EMAIL\<rparr>"
    by (simp add: verify_ex_def jwt_verify_def generateToken_def jwt_sign_def cfg_ex_def
        unix_def)
  show "fst (verifyEmail cfg_ex 2000 verify_ex (db_verify\<lparr>outage := Some 0\<rparr>)) =
          Inl (ApiError UNAUTHORIZED ''Email verification failed'')"
    unfolding verifyEmail_def verifyToken_def jwt3
    by (simp add: tokens_where_first_def query_def throw_def)
qed

text \<open>
  C7, amended. \<open>loginUserWithEmailAndPassword\<close> and \<open>logout\<close> do not catch: when a
  store query of theirs fails, the caller gets the store's error. \<open>refreshAuth\<close> catches
  what its token check and the delete of the old row raise, a store failure included, and
  rejects with \<open>ApiError 401 'Please authenticate'\<close>; what \<open>generateAuthTokens\<close> raises
  it does not catch: once the old row is deleted the call settles as \<open>generateAuthTokens\<close>
  does, so a store failure at the insert of the new row reaches the caller as the store's
  error, with the old row gone. \<open>resetPassword\<close> and \<open>verifyEmail\<close> catch every error
  of their body: they succeed or reject with their own \<open>ApiError 401\<close>, and they reject
  with it whenever the connection fails before the last of their queries (five for a
  password reset, four for an email verification) is answered.
\<close>

theorem store_failure_caught_inside_try:
  "(outage s = Some 0 \<longrightarrow>
      loginUserWithEmailAndPassword e pw s = (Inl StoreError, s) \<and>
      logout tok s = (Inl StoreError, s) \<and>
      refreshAuth cfg tz now tok s = (Inl (ApiError UNAUTHORIZED ''Please authenticate''), s) \<and>
      resetPassword cfg now tok pw s =
        (Inl (ApiError UNAUTHORIZED ''Password reset failed''), s) \<and>
      verifyEmail cfg now tok s =
        (Inl (ApiError UNAUTHORIZED ''Email verification failed''), s)) \<and>
   (\<forall>r. outage s = Some 1 \<and>
         find (\<lambda>r. token r = tok \<and> type_t r = REFRESH \<and> blacklisted r = False) (tokens s) =
           Some r \<longrightarrow>
      logout tok s = (Inl StoreError, s\<lparr>outage := Some 0\<rparr>)) \<and>
   (\<forall>err s1. verifyToken cfg now tok REFRESH s = (Inl err, s1) \<longrightarrow>
      refreshAuth cfg tz now tok s =
        (Inl (ApiError UNAUTHORIZED ''Please authenticate''), s1)) \<and>
   (\<forall>d s1 err s2. verifyToken cfg now tok REFRESH s = (Inr d, s1) \<and>
         tokens_where_del (\<lambda>x. id_t x = id_t d) s1 = (Inl err, s2) \<longrightarrow>
      refreshAuth cfg tz now tok s =
        (Inl (ApiError UNAUTHORIZED ''Please authenticate''), s2)) \<and>
   (\<forall>d s1 s2. verifyToken cfg now tok REFRESH s = (Inr d, s1) \<and>
         tokens_where_del (\<lambda>x. id_t x = id_t d) s1 = (Inr (), s2) \<longrightarrow>
      refreshAuth cfg tz now tok s = generateAuthTokens cfg tz now (user_id d) s2) \<and>
   (\<forall>p r. outage s = Some 2 \<and> jwt_verify now tok (secret cfg) = Inr p \<and>
         find (\<lambda>r. token r = tok \<and> type_t r = REFRESH \<and> user_id r = sub p \<and>
                   blacklisted r = False) (tokens s) = Some r \<longrightarrow>
      refreshAuth cfg tz now tok s =
        (Inl StoreError,
         s\<lparr>outage := Some 0, tokens := filter (\<lambda>x. id_t x \<noteq> id_t r) (tokens s)\<rparr>)) \<and>
   (\<forall>n. outage s = Some n \<and> n < 5 \<longrightarrow>
      fst (resetPassword cfg now tok pw s) =
        Inl (ApiError UNAUTHORIZED ''Password reset failed'')) \<and>
   (\<forall>n. outage s = Some n \<and> n < 4 \<longrightarrow>
      fst (verifyEmail cfg now tok s) =
        Inl (ApiError UNAUTHORIZED ''Email verification failed'')) \<and>
   (fst (resetPassword cfg now tok pw s) = Inr () \<or>
    fst (resetPassword cfg now tok pw s) =
      Inl (ApiError UNAUTHORIZED ''Password reset failed'')) \<and>
   (fst (verifyEmail cfg now tok s) = Inr () \<or>
    fst (verifyEmail cfg now tok s) =
      Inl (ApiError UNAUTHORIZED ''Email verification failed''))"
proof (intro conjI allI impI)
  assume down: "outage s = Some 0"
  show "loginUserWithEmailAndPassword e pw s = (Inl StoreError, s)"
    by (simp add: loginUserWithEmailAndPassword_def getUserByEmail_def users_where_first_def
        query_down [OF down])
  show "logout tok s = (Inl StoreError, s)"
    by (simp add: logout_def tokens_where_first_def query_down [OF down])
  show "refreshAuth cfg tz now tok s =
          (Inl (ApiError UNAUTHORIZED ''Please authenticate''), s)"
    by (cases "jwt_verify now tok (secret cfg)")
       (simp_all add: refreshAuth_def verifyToken_def tokens_where_first_def
          query_down [OF down] throw_def)
  show "resetPassword cfg now tok pw s =
          (Inl (ApiError UNAUTHORIZED ''Password reset failed''), s)"
    by (cases "jwt_verify now tok (secret cfg)")
       (simp_all add: resetPassword_def verifyToken_def tokens_where_first_def
          query_down [OF down] throw_def)
  show "verifyEmail cfg now tok s =
          (Inl (ApiError UNAUTHORIZED ''Email verification failed''), s)"
    by (cases "jwt_verify now tok (secret cfg)")
       (simp_all add: verifyEmail_def verifyToken_def tokens_where_first_def
          query_down [OF down] throw_def)
next
  fix r
  assume h: "outage s = Some 1 \<and>
         find (\<lambda>r. token r = tok \<and> type_t r = REFRESH \<and> blacklisted r = False) (tokens s) =
           Some r"
  then have one: "outage s = Some (Suc 0)"
    by simp
  show "logout tok s = (Inl StoreError, s\<lparr>outage := Some 0\<rparr>)"
    using h
    by (simp add: logout_def tokens_where_first_def tokens_where_del_def query_more [OF one]
        query_down)
next
  fix err s1
  assume "verifyToken cfg now tok REFRESH s = (Inl err, s1)"
  then show "refreshAuth cfg tz now tok s =
               (Inl (ApiError UNAUTHORIZED ''Please authenticate''), s1)"
    by (simp add: refreshAuth_def throw_def)
next
  fix d s1 err s2
  assume "verifyToken cfg now tok REFRESH s = (Inr d, s1) \<and>
         tokens_where_del (\<lambda>x. id_t x = id_t d) s1 = (Inl err, s2)"
  then show "refreshAuth cfg tz now tok s =
               (Inl (ApiError UNAUTHORIZED ''Please authenticate''), s2)"
    by (simp add: refreshAuth_def throw_def)
next
  fix d s1 s2
  assume "verifyToken cfg now tok REFRESH s = (Inr d, s1) \<and>
         tokens_where_del (\<lambda>x. id_t x = id_t d) s1 = (Inr (), s2)"
  then show "refreshAuth cfg tz now tok s = generateAuthTokens cfg tz now (user_id d) s2"
    by (simp add: refreshAuth_def resolve_def)
next
  fix p r
  assume h: "outage s = Some 2 \<and> jwt_verify now tok (secret cfg) = Inr p \<and>
         find (\<lambda>r. token r = tok \<and> type_t r = REFRESH \<and> user_id r = sub p \<and>
                   blacklisted r = False) (tokens s) = Some r"
  then have two: "outage s = Some (Suc (Suc 0))"
    by simp
  have verified: "verifyToken cfg now tok REFRESH s = (Inr r, s\<lparr>outage := Some (Suc 0)\<rparr>)"
    using h by (simp add: verifyToken_def tokens_where_first_def query_more [OF two] resolve_def)
  show "refreshAuth cfg tz now tok s =
        (Inl StoreError,
         s\<lparr>outage := Some 0, tokens := filter (\<lambda>x. id_t x \<noteq> id_t r) (tokens s)\<rparr>)"
    by (simp add: refreshAuth_def verified tokens_where_del_def query_more resolve_def
        generateAuthTokens_def saveToken_def tokens_insert_def query_down Let_def)
next
  fix n
  assume h: "outage s = Some n \<and> n < 5"
  have caught: "fst (resetPassword cfg now tok pw s) =
                  Inl (ApiError UNAUTHORIZED ''Password reset failed'') \<or>
                (\<exists>v. fst (resetPassword cfg now tok pw s) = Inr v)"
    unfolding resetPassword_def using caught_outcomes by fastforce
  from h have short: "outage s = Some n" "n < 5"
    by simp_all
  show "fst (resetPassword cfg now tok pw s) =
          Inl (ApiError UNAUTHORIZED ''Password reset failed'')"
    by (rule caught_needs_queries [OF caught spent_resetPassword short])
next
  fix n
  assume h: "outage s = Some n \<and> n < 4"
  have caught: "fst (verifyEmail cfg now tok s) =
                  Inl (ApiError UNAUTHORIZED ''Email verification failed'') \<or>
                (\<exists>v. fst (verifyEmail cfg now tok s) = Inr v)"
    unfolding verifyEmail_def using caught_outcomes by fastforce
  from h have short: "outage s = Some n" "n < 4"
    by simp_all
  show "fst (verifyEmail cfg now tok s) =
          Inl (ApiError UNAUTHORIZED ''Email verification failed'')"
    by (rule caught_needs_queries [OF caught spent_verifyEmail short])
next
  show "fst (resetPassword cfg now tok pw s) = Inr () \<or>
    fst (resetPassword cfg now tok pw s) =
      Inl (ApiError UNAUTHORIZED ''Password reset failed'')"
    unfolding resetPassword_def using caught_outcomes by fastforce
next
  show "fst (verifyEmail cfg now tok s) = Inr () \<or>
    fst (verifyEmail cfg now tok s) =
      Inl (ApiError UNAUTHORIZED ''Email verification failed'')"
    unfolding verifyEmail_def using caught_outcomes by fastforce
qed

theorem store_failure_caught_inside_try_witness:
  "loginUserWithEmailAndPassword ''a@x.com'' ''secret123'' (db_session\<lparr>outage := Some 0\<rparr>) =
     (Inl StoreError, db_session\<lparr>outage := Some 0\<rparr>) \<and>
   logout refresh_ex (db_session\<lparr>outage := Some 0\<rparr>) =
     (Inl StoreError, db_session\<lparr>outage := Some 0\<rparr>) \<and>
   logout refresh_ex (db_session\<lparr>outage := Some 1\<rparr>) =
     (Inl StoreError, db_session\<lparr>outage := Some 0\<rparr>) \<and>
   refreshAuth cfg_ex utc 1500 refresh_ex (db_session\<lparr>outage := Some 0\<rparr>) =
     (Inl (ApiError UNAUTHORIZED ''Please authenticate''), db_session\<lparr>outage := Some 0\<rparr>) \<and>
   refreshAuth cfg_ex utc 1500 refresh_ex (db_session\<lparr>outage := Some 1\<rparr>) =
     (Inl (ApiError UNAUTHORIZED ''Please authenticate''), db_session\<lparr>outage := Some 0\<rparr>) \<and>
   refreshAuth cfg_ex utc 1500 refresh_ex (db_session\<lparr>outage := Some 2\<rparr>) =
     (Inl StoreError, db_session\<lparr>outage := Some 0, tokens := []\<rparr>) \<and>
   fst (resetPassword cfg_ex 2000 (generateToken 1000 1 1801000 RESET_PASSWORD ''k'')
          ''newpass1'' (db_two_resets\<lparr>outage := Some 4\<rparr>)) =
     Inl (ApiError UNAUTHORIZED ''Password reset failed'') \<and>
   fst (verifyEmail cfg_ex 2000 verify_ex (db_verify\<lparr>outage := Some 3\<rparr>)) =
     Inl (ApiError UNAUTHORIZED ''Email verification failed'')"
proof -
  let ?down = "db_session\<lparr>outage := Some 0\<rparr>"
  let ?one = "db_session\<lparr>outage := Some 1\<rparr>"
  let ?two = "db_session\<lparr>outage := Some 2\<rparr>"
  let ?row = "\<lparr>id_t = 1, token = refresh_ex, type_t = REFRESH, expires = 2592001000,
               blacklisted = False, created_at = 1000, user_id = 1\<rparr>"
  let ?p = "\<lparr>sub = 1, iat = 1, exp = 2592001, type_p = REFRESH\<rparr>"
  let ?reset = "generateToken 1000 1 1801000 RESET_PASSWORD ''k''"
  have down: "outage ?down = Some 0"
    by simp
  have row: "outage ?one = Some 1 \<and>
             find (\<lambda>r. token r = refresh_ex \<and> type_t r = REFRESH \<and> blacklisted r = False)
               (tokens ?one) = Some ?row"
    by (simp add: db_session_eq)
  have jwt: "jwt_verify 1500 refresh_ex (secret cfg_ex) = Inr ?p"
    by (simp add: refresh_ex_verifies)
  have checked: "verifyToken cfg_ex 1500 refresh_ex REFRESH ?one = (Inr ?row, ?down) \<and>
                 tokens_where_del (\<lambda>x. id_t x = id_t ?row) ?down = (Inl StoreError, ?down)"
    unfolding verifyToken_def jwt
    by (simp add: tokens_where_first_def tokens_where_del_def query_def resolve_def
        db_session_eq)
  have insert_fails: "outage ?two = Some 2 \<and> jwt_verify 1500 refresh_ex (secret cfg_ex) = Inr ?p \<and>
         find (\<lambda>r. token r = refresh_ex \<and> type_t r = REFRESH \<and> user_id r = sub ?p \<and>
                   blacklisted r = False) (tokens ?two) = Some ?row"
    by (simp add: jwt db_session_eq)
  have four: "outage (db_two_resets\<lparr>outage := Some 4\<rparr>) = Some 4 \<and> (4::nat) < 5"
    by simp
  have three: "outage (db_verify\<lparr>outage := Some 3\<rparr>) = Some 3 \<and> (3::nat) < 4"
    by simp
  note at_down = store_failure_caught_inside_try
    [where s = ?down and e = "''a@x.com''" and pw = "''secret123''" and tok = refresh_ex
       and cfg = cfg_ex and tz = utc and now = 1500]
  note at_one = store_failure_caught_inside_try
    [where s = ?one and e = "''a@x.com''" and pw = "''secret123''" and tok = refresh_ex
       and cfg = cfg_ex and tz = utc and now = 1500]
  note at_two = store_failure_caught_inside_try
    [where s = ?two and e = "''a@x.com''" and pw = "''secret123''" and tok = refresh_ex
       and cfg = cfg_ex and tz = utc and now = 1500]
  note at_reset = store_failure_caught_inside_try
    [where s = "db_two_resets\<lparr>outage := Some 4\<rparr>" and e = "''a@x.com''"
       and pw = "''newpass1''" and tok = ?reset and cfg = cfg_ex and tz = utc and now = 2000]
  note at_verify = store_failure_caught_inside_try
    [where s = "db_verify\<lparr>outage := Some 3\<rparr>" and e = "''a@x.com''"
       and pw = "''newpass1''" and tok = verify_ex and cfg = cfg_ex and tz = utc and now = 2000]
  from at_down down
  have a: "loginUserWithEmailAndPassword ''a@x.com'' ''secret123'' ?down = (Inl StoreError, ?down)"
    and b: "logout refresh_ex ?down = (Inl StoreError, ?down)"
    and d: "refreshAuth cfg_ex utc 1500 refresh_ex ?down =
              (Inl (ApiError UNAUTHORIZED ''Please authenticate''), ?down)"
    by blast+
  from at_one row have "logout refresh_ex ?one = (Inl StoreError, ?one\<lparr>outage := Some 0\<rparr>)"
    by blast
  then have c: "logout refresh_ex ?one = (Inl StoreError, ?down)"
    by simp
  from at_one checked
  have e: "refreshAuth cfg_ex utc 1500 refresh_ex ?one =
             (Inl (ApiError UNAUTHORIZED ''Please authenticate''), ?down)"
    by blast
  from at_two insert_fails
  have "refreshAuth cfg_ex utc 1500 refresh_ex ?two =
          (Inl StoreError,
           ?two\<lparr>outage := Some 0, tokens := filter (\<lambda>x. id_t x \<noteq> id_t ?row) (tokens ?two)\<rparr>)"
    by blast
  then have f: "refreshAuth cfg_ex utc 1500 refresh_ex ?two =
                  (Inl StoreError, db_session\<lparr>outage := Some 0, tokens := []\<rparr>)"
    by (simp add: db_session_eq)
  from at_reset four
  have g: "fst (resetPassword cfg_ex 2000 ?reset ''newpass1'' (db_two_resets\<lparr>outage := Some 4\<rparr>)) =
             Inl (ApiError UNAUTHORIZED ''Password reset failed'')"
    by blast
  from at_verify three
  have h: "fst (verifyEmail cfg_ex 2000 verify_ex (db_verify\<lparr>outage := Some 3\<rparr>)) =
             Inl (ApiError UNAUTHORIZED ''Email verification failed'')"
    by blast
  from a b c d e f g h show ?thesis
    by blast
qed

end
